theory Spec2Isabelle
  imports Main
begin

section \<open>JavaScript strings\<close>

text \<open>
  A JavaScript string is a sequence of UTF-16 code units. A code unit is modelled by its
  number (\<open>charCodeAt\<close>), a string by the list of its code units. The regular expressions of
  \<^verbatim>\<open>gateway.js\<close> carry no \<^verbatim>\<open>u\<close> flag, so they match code unit by code unit.
\<close>

type_synonym jsstring = "nat list"

text \<open>A string literal of the source, as the list of its code units.\<close>

definition lit :: "string \<Rightarrow> jsstring" where
  "lit s = map of_char s"

text \<open>\<^verbatim>\<open>[0-9]\<close>\<close>

definition is_digit :: "nat \<Rightarrow> bool" where
  "is_digit c = (48 \<le> c \<and> c \<le> 57)"

text \<open>\<^verbatim>\<open>\w\<close>, which is \<^verbatim>\<open>[A-Za-z0-9_]\<close>\<close>

definition is_word_char :: "nat \<Rightarrow> bool" where
  "is_word_char c = ((65 \<le> c \<and> c \<le> 90) \<or> (97 \<le> c \<and> c \<le> 122) \<or> is_digit c \<or> c = 95)"

text \<open>\<^verbatim>\<open>[\w.-]\<close>: the characters that \<^verbatim>\<open>encode_hostname\<close>'s pattern \<^verbatim>\<open>[^\w.-]\<close> does not match.\<close>

definition is_hostname_safe :: "nat \<Rightarrow> bool" where
  "is_hostname_safe c = (is_word_char c \<or> c = 46 \<or> c = 45)"

text \<open>\<^verbatim>\<open>Number.prototype.toString()\<close> on a non-negative integer: its decimal digits.\<close>

function toString :: "nat \<Rightarrow> jsstring" where
  "toString n = (if n < 10 then [48 + n] else toString (n div 10) @ [48 + n mod 10])"
  by pat_completeness auto
termination
  by (relation "measure id") auto

declare toString.simps [simp del]

text \<open>\<^verbatim>\<open>s.padStart(n, c)\<close> with a one-character pad string.\<close>

definition padStart :: "jsstring \<Rightarrow> nat \<Rightarrow> nat \<Rightarrow> jsstring" where
  "padStart s n c = replicate (n - length s) c @ s"

text \<open>\<^verbatim>\<open>s.substr(start, len)\<close> with a non-negative start; a negative length reads as 0.\<close>

definition substr :: "jsstring \<Rightarrow> nat \<Rightarrow> int \<Rightarrow> jsstring" where
  "substr s start len = take (nat len) (drop start s)"

text \<open>\<^verbatim>\<open>parseInt\<close> on a string of decimal digits.\<close>

definition parseInt :: "jsstring \<Rightarrow> nat" where
  "parseInt ds = foldl (\<lambda>acc d. 10 * acc + (d - 48)) 0 ds"

text \<open>\<^verbatim>\<open>String.fromCharCode(n)\<close>: the code unit \<open>n\<close> modulo \<open>2^16\<close>.\<close>

definition fromCharCode :: "nat \<Rightarrow> nat" where
  "fromCharCode n = n mod 65536"

text \<open>\<^verbatim>\<open>s.endsWith(t)\<close>\<close>

definition endsWith :: "jsstring \<Rightarrow> jsstring \<Rightarrow> bool" where
  "endsWith s t = (length t \<le> length s \<and> drop (length s - length t) s = t)"

section \<open>The hostname codec\<close>

text \<open>
  \<^verbatim>\<open>encode_hostname\<close>: the replacement of one character matched by \<^verbatim>\<open>[^\w.-]\<close>, which is
  \<^verbatim>\<open>`.e${char_num.toString().padStart(3, '0')}.`\<close>, and the global replace over the string.
\<close>

definition encode_char :: "nat \<Rightarrow> jsstring" where
  "encode_char c = lit ''.e'' @ padStart (toString c) 3 48 @ lit ''.''"

fun encode_hostname :: "jsstring \<Rightarrow> jsstring" where
  "encode_hostname [] = []"
| "encode_hostname (c # cs) =
     (if is_hostname_safe c then c # encode_hostname cs
      else encode_char c @ encode_hostname cs)"

text \<open>
  \<^verbatim>\<open>decode_hostname\<close>: whether \<^verbatim>\<open>[.]e[0-9]{3}[.]\<close> matches at the head of the string, and the
  global replace, which scans from the left and resumes after each match.
\<close>

definition sentinel_match :: "jsstring \<Rightarrow> bool" where
  "sentinel_match xs =
     (6 \<le> length xs \<and> take 2 xs = lit ''.e'' \<and> list_all is_digit (take 3 (drop 2 xs))
      \<and> xs ! 5 = 46)"

fun decode_hostname :: "jsstring \<Rightarrow> jsstring" where
  "decode_hostname [] = []"
| "decode_hostname (x # xs) =
     (if sentinel_match (x # xs)
      then fromCharCode (parseInt (substr (x # xs) 2 3)) # decode_hostname (drop 5 xs)
      else x # decode_hostname xs)"

text \<open>
  A place in a string that the decoder takes for a sentinel once the string is encoded:
  \<^verbatim>\<open>.e\<close> and three digits, followed by a dot or by a character that the encoder escapes
  (whose escape starts with a dot).
\<close>

definition sentinel_lookalike :: "jsstring \<Rightarrow> bool" where
  "sentinel_lookalike xs =
     (6 \<le> length xs \<and> take 2 xs = lit ''.e'' \<and> list_all is_digit (take 3 (drop 2 xs))
      \<and> (xs ! 5 = 46 \<or> \<not> is_hostname_safe (xs ! 5)))"

fun has_sentinel_lookalike :: "jsstring \<Rightarrow> bool" where
  "has_sentinel_lookalike [] = False"
| "has_sentinel_lookalike (x # xs) = (sentinel_lookalike (x # xs) \<or> has_sentinel_lookalike xs)"

section \<open>JavaScript values, errors and the platform\<close>

text \<open>
  The values that cross the middleware's interfaces untyped: the error code handed to
  \<^verbatim>\<open>map_dns_status_to_http_code\<close>, what a filter returns, the arguments and the result of
  the framework's \<^verbatim>\<open>next\<close>. \<open>JS_object\<close> stands for any object, by an identity.
\<close>

datatype js_value =
  JS_undefined | JS_null | JS_bool bool | JS_number int | JS_string jsstring | JS_object nat

text \<open>
  What the code can throw: a \<^verbatim>\<open>TypeError\<close> (a method called on \<^verbatim>\<open>undefined\<close> or
  \<^verbatim>\<open>null\<close>, a string that \<^verbatim>\<open>new URL\<close> rejects), a \<^verbatim>\<open>ReferenceError\<close> (an identifier
  that is not declared), and whatever a callback of the caller's throws.
\<close>

datatype js_error = TypeError | ReferenceError | CallbackError js_value

text \<open>
  A \<^verbatim>\<open>URL\<close> object, by the strings its getters return (\<open>protocol\<close> with its colon, as in
  \<^verbatim>\<open>'https:'\<close>; \<open>host\<close> with the port, \<open>hostname\<close> without it; \<open>search\<close> with its
  question mark).
\<close>

record url =
  protocol :: jsstring
  host :: jsstring
  hostname :: jsstring
  port :: jsstring
  pathname :: jsstring
  search :: jsstring

text \<open>
  The \<^verbatim>\<open>URL\<close> class belongs to the platform, not to the repository. The code uses its
  constructor, which throws on a string that is no URL (\<open>None\<close> here), and the setters of
  \<^verbatim>\<open>protocol\<close> and \<^verbatim>\<open>pathname\<close>; the three are parameters of the model.
\<close>

record platform =
  new_URL :: "jsstring \<Rightarrow> url option"
  URL_set_protocol :: "url \<Rightarrow> jsstring \<Rightarrow> url"
  URL_set_pathname :: "url \<Rightarrow> jsstring \<Rightarrow> url"

text \<open>
  A platform to run the model on: the setters store what they are given, the protocol
  with the colon that the getter shows; the constructor rejects every string, so a
  backend URL is an object that a parser callback returns.
\<close>

definition simple_platform :: platform where
  "simple_platform =
     \<lparr>new_URL = (\<lambda>s. None),
      URL_set_protocol = (\<lambda>u p. u\<lparr>protocol := p @ lit '':''\<rparr>),
      URL_set_pathname = (\<lambda>u p. u\<lparr>pathname := p\<rparr>)\<rparr>"

text \<open>What a parser callback hands back as the backend URL: nothing, a string or a URL object.\<close>

datatype url_value = Url_null | Url_undefined | Url_string jsstring | Url_object url

text \<open>\<^verbatim>\<open>s.lastIndexOf(t)\<close>: the last index where \<open>t\<close> occurs in \<open>s\<close>, or \<open>-1\<close>.\<close>

definition lastIndexOf :: "jsstring \<Rightarrow> jsstring \<Rightarrow> int" where
  "lastIndexOf s t =
     (case filter (\<lambda>i. take (length t) (drop i s) = t) (rev [0..<Suc (length s)]) of
        [] \<Rightarrow> - 1
      | i # _ \<Rightarrow> int i)"

section \<open>The DNS status map\<close>

text \<open>
  The four constants of Node's \<^verbatim>\<open>dns\<close> module that the switch compares with. The module
  is not part of the repository, so the constants are a parameter; \<open>node_dns\<close> holds the
  values Node gives them.
\<close>

record dns_constants =
  NOTFOUND :: jsstring
  REFUSED :: jsstring
  CANCELLED :: jsstring
  CONNREFUSED :: jsstring

definition node_dns :: dns_constants where
  "node_dns =
     \<lparr>NOTFOUND = lit ''ENOTFOUND'', REFUSED = lit ''EREFUSED'',
      CANCELLED = lit ''ECANCELLED'', CONNREFUSED = lit ''ECONNREFUSED''\<rparr>"

text \<open>The \<^verbatim>\<open>switch\<close> compares with \<^verbatim>\<open>===\<close>, case by case from the top.\<close>

definition map_dns_status_to_http_code :: "dns_constants \<Rightarrow> js_value \<Rightarrow> nat" where
  "map_dns_status_to_http_code dns dns_error_Code =
     (if dns_error_Code = JS_string (NOTFOUND dns) then 404
      else if dns_error_Code = JS_string (REFUSED dns)
              \<or> dns_error_Code = JS_string (CANCELLED dns)
              \<or> dns_error_Code = JS_string (CONNREFUSED dns) then 403
      else 500)"

section \<open>Requests, the gateway and the request info\<close>

text \<open>
  The fields of the framework's request that the code reads: \<^verbatim>\<open>req.protocol\<close>,
  \<^verbatim>\<open>req.method\<close>, \<^verbatim>\<open>req.originalUrl\<close>, \<^verbatim>\<open>req.baseUrl\<close> (which may be missing) and
  \<^verbatim>\<open>req.headers\<close>, an object from lower-case header names to strings.
\<close>

record request =
  req_protocol :: jsstring
  req_method :: jsstring
  originalUrl :: jsstring
  baseUrl :: "jsstring option"
  headers :: "jsstring \<rightharpoonup> jsstring"

text \<open>\<^verbatim>\<open>req.get(name)\<close> of the framework, for a lower-case name: the header, or \<^verbatim>\<open>undefined\<close>.\<close>

definition req_get :: "request \<Rightarrow> jsstring \<Rightarrow> jsstring option" where
  "req_get req name = headers req name"

text \<open>The options that the constructor of \<^verbatim>\<open>Gateway\<close> stores.\<close>

record gateway =
  gateway_host :: "jsstring option"
  force_protocol :: "jsstring option"
  force_http :: bool
  force_websocket_protocol :: bool
  gateway_subdomain :: jsstring
  socket_ports :: "nat list"

text \<open>\<^verbatim>\<open>class GatewayRequestInfo\<close> and the values its constructor sets.\<close>

record gateway_request_info =
  is_gateway_intercept :: bool
  is_gateway_host :: bool
  is_websocket_request :: bool
  target_id :: "jsstring option"
  gateway_domain_postfix :: "jsstring option"
  target_method :: "jsstring option"
  backend_url :: url_value

definition new_GatewayRequestInfo :: gateway_request_info where
  "new_GatewayRequestInfo =
     \<lparr>is_gateway_intercept = False, is_gateway_host = False, is_websocket_request = False,
      target_id = None, gateway_domain_postfix = None, target_method = None,
      backend_url = Url_null\<rparr>"

section \<open>The backend parser\<close>

text \<open>
  \<^verbatim>\<open>class GatewayBackendParser\<close>: four optional callbacks (\<^verbatim>\<open>invoke_methods\<close>), each of
  which may throw, and the four methods that call the callback when there is one and
  otherwise compute a default.
\<close>

record gateway_backend_parser =
  cb_parse_url_from_id :: "(gateway \<Rightarrow> request \<Rightarrow> jsstring \<Rightarrow> js_error + url_value) option"
  cb_parse_url_from_route :: "(gateway \<Rightarrow> request \<Rightarrow> js_error + url_value) option"
  cb_parse_protocol :: "(gateway \<Rightarrow> request \<Rightarrow> js_error + jsstring) option"
  cb_parse_method :: "(gateway \<Rightarrow> request \<Rightarrow> js_error + jsstring) option"

definition construct_URL :: "platform \<Rightarrow> jsstring \<Rightarrow> js_error + url_value" where
  "construct_URL pf s = (case new_URL pf s of None \<Rightarrow> Inl TypeError | Some u \<Rightarrow> Inr (Url_object u))"

definition parse_url_from_id ::
  "platform \<Rightarrow> gateway_backend_parser \<Rightarrow> gateway \<Rightarrow> request \<Rightarrow> jsstring \<Rightarrow> js_error + url_value" where
  "parse_url_from_id pf parser gw req tid =
     (case cb_parse_url_from_id parser of
        Some f \<Rightarrow> f gw req tid
      | None \<Rightarrow> construct_URL pf (req_protocol req @ lit ''://'' @ tid @ originalUrl req))"

definition parse_url_from_route ::
  "platform \<Rightarrow> gateway_backend_parser \<Rightarrow> gateway \<Rightarrow> request \<Rightarrow> js_error + url_value" where
  "parse_url_from_route pf parser gw req =
     (case cb_parse_url_from_route parser of
        Some f \<Rightarrow> f gw req
      | None \<Rightarrow>
          (let request_path =
                 drop (length (case baseUrl req of None \<Rightarrow> [] | Some b \<Rightarrow> b)) (originalUrl req)
           in construct_URL pf (req_protocol req @ lit ''://'' @ request_path)))"

definition parse_protocol ::
  "gateway_backend_parser \<Rightarrow> gateway \<Rightarrow> request \<Rightarrow> js_error + jsstring" where
  "parse_protocol parser gw req =
     (case cb_parse_protocol parser of
        Some f \<Rightarrow> f gw req
      | None \<Rightarrow>
          (let target_protocol =
                 (case force_protocol gw of None \<Rightarrow> req_protocol req | Some fp \<Rightarrow> fp)
           in Inr (if force_http gw \<and> target_protocol = lit ''https'' then lit ''http''
                   else target_protocol)))"

definition parse_method ::
  "gateway_backend_parser \<Rightarrow> gateway \<Rightarrow> request \<Rightarrow> js_error + jsstring" where
  "parse_method parser gw req =
     (case cb_parse_method parser of Some f \<Rightarrow> f gw req | None \<Rightarrow> Inr (req_method req))"

text \<open>
  \<^verbatim>\<open>_validate_parser\<close>: \<^verbatim>\<open>assert\<close> is the console's, which prints and goes on. A parser
  object is kept; a function becomes the route callback of a fresh parser, and so does
  \<^verbatim>\<open>null\<close>, which a fresh parser reads as no callback.
\<close>

datatype parser_argument =
  Parser_null
  | Parser_function "gateway \<Rightarrow> request \<Rightarrow> js_error + url_value"
  | Parser_object gateway_backend_parser

definition validate_parser :: "parser_argument \<Rightarrow> gateway_backend_parser" where
  "validate_parser parser =
     (case parser of
        Parser_object p \<Rightarrow> p
      | Parser_function f \<Rightarrow>
          \<lparr>cb_parse_url_from_id = None, cb_parse_url_from_route = Some f,
           cb_parse_protocol = None, cb_parse_method = None\<rparr>
      | Parser_null \<Rightarrow>
          \<lparr>cb_parse_url_from_id = None, cb_parse_url_from_route = None,
           cb_parse_protocol = None, cb_parse_method = None\<rparr>)"

section \<open>The request classifier\<close>

text \<open>
  \<^verbatim>\<open>get_gateway_host\<close>: the configured host, or the part of the \<^verbatim>\<open>Host\<close> header after the
  last \<^verbatim>\<open>.<subdomain>.\<close>; a request with no \<^verbatim>\<open>Host\<close> header makes \<^verbatim>\<open>host.lastIndexOf\<close>
  throw.
\<close>

definition get_gateway_host :: "gateway \<Rightarrow> request \<Rightarrow> js_error + jsstring" where
  "get_gateway_host gw req =
     (case gateway_host gw of
        Some h \<Rightarrow> Inr h
      | None \<Rightarrow>
          (case req_get req (lit ''host'') of
             None \<Rightarrow> Inl TypeError
           | Some h \<Rightarrow>
               (let subdomain_prefix = lit ''.'' @ gateway_subdomain gw @ lit ''.'';
                    last_index = lastIndexOf h subdomain_prefix
                in if last_index = - 1 then Inr h
                   else Inr (drop (nat last_index + length subdomain_prefix) h))))"

text \<open>
  \<^verbatim>\<open>_parse_request_core_info\<close>. The info object is the caller's fresh one; a throw leaves
  the function before anyone reads it, so the model returns the error alone.
\<close>

definition parse_request_core_info ::
  "platform \<Rightarrow> gateway \<Rightarrow> gateway_backend_parser \<Rightarrow> gateway_request_info \<Rightarrow> request
   \<Rightarrow> js_error + gateway_request_info" where
  "parse_request_core_info pf gw parser info req =
     (case get_gateway_host gw req of
        Inl e \<Rightarrow> Inl e
      | Inr gh \<Rightarrow>
          (case req_get req (lit ''host'') of
             None \<Rightarrow> Inl TypeError
           | Some req_host \<Rightarrow>
               (let postfix = gateway_subdomain gw @ lit ''.'' @ gh;
                    info1 = info
                      \<lparr>gateway_domain_postfix := Some postfix,
                       is_gateway_host := endsWith req_host postfix,
                       is_websocket_request :=
                         (headers req (lit ''sec-websocket-protocol'') \<noteq> None
                          \<or> headers req (lit ''upgrade'') = Some (lit ''websocket''))\<rparr>
                in if is_gateway_host info1
                   then
                     (let tid = decode_hostname
                            (substr req_host 0
                               (int (length req_host) - int (length postfix) - 1))
                      in case parse_url_from_id pf parser gw req tid of
                           Inl e \<Rightarrow> Inl e
                         | Inr u \<Rightarrow> Inr (info1\<lparr>target_id := Some tid, backend_url := u\<rparr>))
                   else Inr info1)))"

text \<open>\<^verbatim>\<open>pathname.replace(/\/[.]websocket$/, '')\<close>: the pattern is anchored at the end.\<close>

definition strip_websocket_suffix :: "jsstring \<Rightarrow> jsstring" where
  "strip_websocket_suffix p =
     (if endsWith p (lit ''/.websocket'')
      then take (length p - length (lit ''/.websocket'')) p
      else p)"

text \<open>
  \<^verbatim>\<open>info.backend_url instanceof URL ? info.backend_url : new URL(info.backend_url)\<close>, for a
  value that is not \<^verbatim>\<open>null\<close> or \<^verbatim>\<open>undefined\<close>.
\<close>

definition to_URL :: "platform \<Rightarrow> url_value \<Rightarrow> js_error + url" where
  "to_URL pf v =
     (case v of
        Url_object u \<Rightarrow> Inr u
      | Url_string s \<Rightarrow> (case new_URL pf s of None \<Rightarrow> Inl TypeError | Some u \<Rightarrow> Inr u)
      | _ \<Rightarrow> Inl TypeError)"

text \<open>
  \<^verbatim>\<open>_parse_request_intercept_info\<close>. \<^verbatim>\<open>info.target_id || info.backend_url.host\<close> keeps a
  target id that is a non-empty string.
\<close>

definition parse_request_intercept_info ::
  "platform \<Rightarrow> gateway \<Rightarrow> gateway_backend_parser \<Rightarrow> gateway_request_info \<Rightarrow> request
   \<Rightarrow> js_error + gateway_request_info" where
  "parse_request_intercept_info pf gw parser info req =
     (case (if is_gateway_host info then Inr (backend_url info)
            else parse_url_from_route pf parser gw req) of
        Inl e \<Rightarrow> Inl e
      | Inr v \<Rightarrow>
          (if v = Url_null \<or> v = Url_undefined
           then Inr (info\<lparr>is_gateway_intercept := False, backend_url := v\<rparr>)
           else
             (case to_URL pf v of
                Inl e \<Rightarrow> Inl e
              | Inr u \<Rightarrow>
                  (let tid = (case target_id info of
                                None \<Rightarrow> host u
                              | Some t \<Rightarrow> if t = [] then host u else t)
                   in case parse_method parser gw req of
                        Inl e \<Rightarrow> Inl e
                      | Inr m \<Rightarrow>
                          (case parse_protocol parser gw req of
                             Inl e \<Rightarrow> Inl e
                           | Inr proto \<Rightarrow>
                               (let u1 = URL_set_protocol pf u proto;
                                    u2 = (if is_websocket_request info
                                          then URL_set_pathname pf u1
                                                 (strip_websocket_suffix (pathname u1))
                                          else u1)
                                in Inr (info
                                     \<lparr>is_gateway_intercept := True, target_id := Some tid,
                                      target_method := Some m,
                                      backend_url := Url_object u2\<rparr>)))))))"

section \<open>The proxy engines\<close>

text \<open>
  The options object handed to \<^verbatim>\<open>http.request\<close> or \<^verbatim>\<open>https.request\<close>. A header of the
  options is a string or, once the code has cleared it, \<^verbatim>\<open>null\<close>.
\<close>

datatype header_value = Header_string jsstring | Header_null

record request_options =
  opt_method :: "jsstring option"
  opt_protocol :: jsstring
  opt_hostname :: jsstring
  opt_port :: jsstring
  opt_path :: jsstring
  opt_headers :: "jsstring \<rightharpoonup> header_value"

datatype transport = Plain_http | Tls_https

text \<open>
  \<^verbatim>\<open>create_proxy_request\<close>, up to the call of \<^verbatim>\<open>http.request\<close> or \<^verbatim>\<open>https.request\<close>:
  the module called and the options. The two spreads build the headers; \<^verbatim>\<open>(options.headers.host || '')\<close>
  reads a missing or cleared host as the empty string. The properties of
  \<^verbatim>\<open>info.backend_url\<close> are read from a URL object, which is what the middleware has
  stored there when it calls; on \<^verbatim>\<open>null\<close> the read throws, and the model reads every
  value that is no URL object as that throw.
\<close>

definition create_proxy_request ::
  "request \<Rightarrow> gateway_request_info \<Rightarrow> (jsstring \<rightharpoonup> header_value) option \<Rightarrow> bool
   \<Rightarrow> js_error + transport \<times> request_options" where
  "create_proxy_request req info hdrs override_headers =
     (case backend_url info of
        Url_object u \<Rightarrow>
          (let spread =
                 (if override_headers then Map.empty
                  else map_option Header_string \<circ> headers req)
                 ++ (case hdrs of None \<Rightarrow> Map.empty | Some h \<Rightarrow> h);
               host_or_empty =
                 (case spread (lit ''host'') of Some (Header_string v) \<Rightarrow> v | _ \<Rightarrow> []);
               options =
                 \<lparr>opt_method = target_method info, opt_protocol = protocol u,
                  opt_hostname = hostname u, opt_port = port u,
                  opt_path = pathname u @ search u,
                  opt_headers =
                    (if endsWith host_or_empty (host u)
                     then spread(lit ''host'' \<mapsto> Header_null) else spread)\<rparr>
           in Inr (if protocol u = lit ''wss:'' \<or> protocol u = lit ''https:''
                   then Tls_https else Plain_http, options))
      | _ \<Rightarrow> Inl TypeError)"

text \<open>
  What the middleware does to the world, in order: calls of the framework's \<^verbatim>\<open>next\<close>,
  \<^verbatim>\<open>res.redirect\<close>, \<^verbatim>\<open>res.sendStatus\<close>, an upstream request opened for the HTTP proxy or
  for the websocket tunnel, and the events it emits (for a log event, its level).
\<close>

datatype engine = Http_proxy | Websocket_tunnel

datatype effect =
  Call_next "js_value list"
  | Res_redirect jsstring
  | Res_sendStatus nat
  | Upstream_request engine transport request_options
  | Emit_error js_error
  | Emit_log jsstring

text \<open>
  Modelled from the spec: the framework's \<^verbatim>\<open>res.redirect(url)\<close> and
  \<^verbatim>\<open>res.sendStatus(code)\<close> are not in the repository. The redirect with one argument
  responds with status 302 and the URL as \<^verbatim>\<open>Location\<close>; \<^verbatim>\<open>sendStatus\<close> responds with the
  status.
\<close>

record http_response =
  status :: nat
  location :: "jsstring option"

definition http_response_of :: "effect \<Rightarrow> http_response option" where
  "http_response_of e =
     (case e of
        Res_redirect u \<Rightarrow> Some \<lparr>status = 302, location = Some u\<rparr>
      | Res_sendStatus n \<Rightarrow> Some \<lparr>status = n, location = None\<rparr>
      | _ \<Rightarrow> None)"

text \<open>
  The effects by which the gateway takes a request over: an upstream request or a
  redirect. The middleware never calls \<^verbatim>\<open>create_socket_tunnel\<close>, so no run opens a raw
  socket and the effects have no constructor for one.
\<close>

definition is_interception :: "effect \<Rightarrow> bool" where
  "is_interception e = (case e of Upstream_request _ _ _ \<Rightarrow> True | Res_redirect _ \<Rightarrow> True | _ \<Rightarrow> False)"

definition is_next_call :: "effect \<Rightarrow> bool" where
  "is_next_call e = (case e of Call_next _ \<Rightarrow> True | _ \<Rightarrow> False)"

text \<open>
  \<^verbatim>\<open>send_proxy_request\<close> and \<^verbatim>\<open>create_websocket_proxy\<close>, up to the upstream request they
  open. The websocket engine catches what is thrown inside it and emits it.
\<close>

definition send_proxy_request :: "request \<Rightarrow> gateway_request_info \<Rightarrow> js_error + effect list" where
  "send_proxy_request req info =
     (case create_proxy_request req info None False of
        Inl e \<Rightarrow> Inl e
      | Inr (t, options) \<Rightarrow> Inr [Upstream_request Http_proxy t options])"

definition create_websocket_proxy :: "request \<Rightarrow> gateway_request_info \<Rightarrow> effect list" where
  "create_websocket_proxy req info =
     (case create_proxy_request req info None False of
        Inl e \<Rightarrow> [Emit_error e, Emit_log (lit ''ERROR'')]
      | Inr (t, options) \<Rightarrow> [Upstream_request Websocket_tunnel t options])"

section \<open>The websocket upgrade response\<close>

text \<open>
  The headers of the upstream response (\<^verbatim>\<open>proxy_rsp.headers\<close>): an object whose values
  are strings or arrays of strings, by its keys in the order of \<^verbatim>\<open>Object.keys\<close>.
\<close>

datatype header_field = Scalar jsstring | Array "jsstring list"

datatype header_argument =
  Arg_string jsstring
  | Arg_array "jsstring list"
  | Arg_object "(jsstring \<times> header_field) list"

definition join :: "jsstring list \<Rightarrow> jsstring \<Rightarrow> jsstring" where
  "join ls sep = (case ls of [] \<Rightarrow> [] | l # rest \<Rightarrow> l @ concat (map (\<lambda>x. sep @ x) rest))"

definition CRLF :: jsstring where
  "CRLF = [13, 10]"

text \<open>
  The loop over the keys of an object argument. In the array branch the callback of
  \<^verbatim>\<open>forEach\<close> reads \<^verbatim>\<open>value[i]\<close>; neither name is declared, so the first element of an
  array throws a \<^verbatim>\<open>ReferenceError\<close>, and an empty array adds no line.
\<close>

fun object_lines :: "(jsstring \<times> header_field) list \<Rightarrow> js_error + jsstring list" where
  "object_lines [] = Inr []"
| "object_lines ((key, Scalar ov) # kvs) =
     (case object_lines kvs of
        Inl e \<Rightarrow> Inl e
      | Inr ls \<Rightarrow> Inr ((key @ lit '': '' @ ov) # ls))"
| "object_lines ((key, Array ov) # kvs) =
     (if ov = [] then object_lines kvs else Inl ReferenceError)"

text \<open>
  The loop over the arguments: an array is appended to the lines and then, being an
  object, read key by key (its keys are its indices); any other object is read key by
  key; a string is pushed as it is.
\<close>

fun argument_lines :: "header_argument list \<Rightarrow> js_error + jsstring list" where
  "argument_lines [] = Inr []"
| "argument_lines (Arg_string v # args) =
     (case argument_lines args of Inl e \<Rightarrow> Inl e | Inr ls \<Rightarrow> Inr (v # ls))"
| "argument_lines (Arg_array v # args) =
     (case argument_lines args of
        Inl e \<Rightarrow> Inl e
      | Inr ls \<Rightarrow>
          Inr (v @ map (\<lambda>i. toString i @ lit '': '' @ v ! i) [0..<length v] @ ls))"
| "argument_lines (Arg_object v # args) =
     (case object_lines v of
        Inl e \<Rightarrow> Inl e
      | Inr ks \<Rightarrow> (case argument_lines args of Inl e \<Rightarrow> Inl e | Inr ls \<Rightarrow> Inr (ks @ ls)))"

definition create_websocket_socket_header :: "header_argument list \<Rightarrow> js_error + jsstring" where
  "create_websocket_socket_header args =
     (case argument_lines args of
        Inl e \<Rightarrow> Inl e
      | Inr lines \<Rightarrow> Inr (join lines CRLF @ CRLF @ CRLF))"

text \<open>
  The \<^verbatim>\<open>upgrade\<close> listener's \<^verbatim>\<open>client_socket.write(create_websocket_socket_header(...))\<close>:
  the bytes written to the client, or the error thrown before anything is written.
\<close>

definition upgrade_response :: "(jsstring \<times> header_field) list \<Rightarrow> js_error + jsstring" where
  "upgrade_response proxy_rsp_headers =
     create_websocket_socket_header
       [Arg_string (lit ''HTTP/1.1 101 Switching Protocols''), Arg_object proxy_rsp_headers]"

section \<open>The middleware\<close>

text \<open>
  \<^verbatim>\<open>get_gateway_host_redirect\<close>; \<^verbatim>\<open>encode_hostname\<close> throws on a target id that is
  \<^verbatim>\<open>null\<close>, and so does a property read on a backend URL that is \<^verbatim>\<open>null\<close>. The
  middleware calls it after phase 2 has stored a URL object and a target id; the model
  reads every other shape of the two as the throw.
\<close>

definition get_gateway_host_redirect ::
  "gateway \<Rightarrow> request \<Rightarrow> gateway_request_info \<Rightarrow> js_error + jsstring" where
  "get_gateway_host_redirect gw req info =
     (case get_gateway_host gw req of
        Inl e \<Rightarrow> Inl e
      | Inr redirect_host \<Rightarrow>
          (case (backend_url info, target_id info) of
             (Url_object u, Some tid) \<Rightarrow>
               Inr (protocol u @ lit ''//'' @ encode_hostname tid @ lit ''.''
                    @ gateway_subdomain gw @ lit ''.'' @ redirect_host
                    @ pathname u @ search u)
           | _ \<Rightarrow> Inl TypeError))"

text \<open>
  A filter is a callback of the caller's. What the middleware sees of one run of it:
  the calls it made of the \<^verbatim>\<open>next\<close> it was given (the arguments of each, in order), and
  the value it returned or the error it threw. A filter is taken to read the info and the
  request without changing them. The framework's \<^verbatim>\<open>next\<close> is a function from its arguments
  to what it returns, and is taken to return.
\<close>

record filter_run =
  next_calls :: "js_value list list"
  filter_return :: "js_error + js_value"

type_synonym gateway_request_filter = "gateway_request_info \<Rightarrow> request \<Rightarrow> filter_run"

type_synonym next_function = "js_value list \<Rightarrow> js_value"

record middleware_result =
  effects :: "effect list"
  returned :: js_value

text \<open>The \<^verbatim>\<open>catch\<close> of \<^verbatim>\<open>run_middleware\<close>, after the effects that came before the throw.\<close>

definition caught :: "effect list \<Rightarrow> js_error \<Rightarrow> middleware_result" where
  "caught before err =
     \<lparr>effects = before @ [Emit_error err, Emit_log (lit ''ERROR''), Res_sendStatus 500],
      returned = JS_undefined\<rparr>"

text \<open>\<^verbatim>\<open>run_middleware\<close> from \<^verbatim>\<open>_parse_request_intercept_info\<close> on: phase 2 and the dispatch.\<close>

definition intercept_phase ::
  "platform \<Rightarrow> gateway \<Rightarrow> gateway_backend_parser \<Rightarrow> gateway_request_info \<Rightarrow> request
   \<Rightarrow> next_function \<Rightarrow> middleware_result" where
  "intercept_phase pf gw parser info req next =
     (case parse_request_intercept_info pf gw parser info req of
        Inl e \<Rightarrow> caught [] e
      | Inr info2 \<Rightarrow>
          if \<not> is_gateway_intercept info2
          then \<lparr>effects = [Call_next []], returned = next []\<rparr>
          else if is_websocket_request info2
          then \<lparr>effects = Emit_log (lit ''INFO'') # create_websocket_proxy req info2,
                returned = JS_undefined\<rparr>
          else if \<not> is_gateway_host info2
          then (case get_gateway_host_redirect gw req info2 of
                  Inl e \<Rightarrow> caught [] e
                | Inr redirect_path \<Rightarrow>
                    \<lparr>effects = [Emit_log (lit ''INFO''), Res_redirect redirect_path],
                     returned = JS_undefined\<rparr>)
          else (case send_proxy_request req info2 of
                  Inl e \<Rightarrow> caught [] e
                | Inr es \<Rightarrow> \<lparr>effects = es, returned = JS_undefined\<rparr>))"

text \<open>
  \<^verbatim>\<open>run_middleware\<close>. \<^verbatim>\<open>is_next_override\<close> is set by a call of \<^verbatim>\<open>next_with_override\<close>,
  \<^verbatim>\<open>next_override_result\<close> is the result of the last such call, and \<^verbatim>\<open>is_allowed\<close> is
  false for a filter that returned \<^verbatim>\<open>false\<close> (compared with \<^verbatim>\<open>===\<close>).
\<close>

definition run_middleware ::
  "platform \<Rightarrow> gateway \<Rightarrow> gateway_backend_parser \<Rightarrow> gateway_request_filter option \<Rightarrow> request
   \<Rightarrow> next_function \<Rightarrow> middleware_result" where
  "run_middleware pf gw parser request_filter req next =
     (case parse_request_core_info pf gw parser new_GatewayRequestInfo req of
        Inl e \<Rightarrow> caught [] e
      | Inr info \<Rightarrow>
          (case request_filter of
             None \<Rightarrow> intercept_phase pf gw parser info req next
           | Some f \<Rightarrow>
               (let run = f info req;
                    called = map Call_next (next_calls run);
                    is_next_override = (next_calls run \<noteq> [])
                in case filter_return run of
                     Inl e \<Rightarrow> caught called e
                   | Inr v \<Rightarrow>
                       (let is_allowed = (v \<noteq> JS_bool False)
                        in if \<not> is_allowed \<or> is_next_override
                           then (if \<not> is_next_override
                                 then \<lparr>effects = called @ [Call_next []], returned = next []\<rparr>
                                 else \<lparr>effects = called,
                                       returned = next (last (next_calls run))\<rparr>)
                           else intercept_phase pf gw parser info req next))))"

text \<open>\<^verbatim>\<open>middleware(parser, request_filter)\<close>: the handler it returns.\<close>

definition middleware ::
  "platform \<Rightarrow> gateway \<Rightarrow> parser_argument \<Rightarrow> gateway_request_filter option \<Rightarrow> request
   \<Rightarrow> next_function \<Rightarrow> middleware_result" where
  "middleware pf gw parser request_filter =
     run_middleware pf gw (validate_parser parser) request_filter"

text \<open>
  A filter lets the request go on to phase 2 when there is none, or when it returned a
  value other than \<^verbatim>\<open>false\<close> and did not call the \<^verbatim>\<open>next\<close> it was given.
\<close>

definition filter_proceeds ::
  "gateway_request_filter option \<Rightarrow> gateway_request_info \<Rightarrow> request \<Rightarrow> bool" where
  "filter_proceeds request_filter info req =
     (case request_filter of
        None \<Rightarrow> True
      | Some f \<Rightarrow>
          next_calls (f info req) = []
          \<and> (case filter_return (f info req) of Inl e \<Rightarrow> False | Inr v \<Rightarrow> v \<noteq> JS_bool False))"

definition filter_throws ::
  "gateway_request_filter option \<Rightarrow> gateway_request_info \<Rightarrow> request \<Rightarrow> bool" where
  "filter_throws request_filter info req =
     (case request_filter of
        None \<Rightarrow> False
      | Some f \<Rightarrow> (case filter_return (f info req) of Inl e \<Rightarrow> True | Inr v \<Rightarrow> False))"

text \<open>
  What a run shows of its upstream requests: the engine, the module called and the
  protocol of the options; and of a request built by \<^verbatim>\<open>create_proxy_request\<close>, one header.
\<close>

definition upstream_protocols :: "effect list \<Rightarrow> (engine \<times> transport \<times> jsstring) list" where
  "upstream_protocols es =
     concat (map (\<lambda>e. case e of Upstream_request g t options \<Rightarrow> [(g, t, opt_protocol options)]
                          | _ \<Rightarrow> []) es)"

definition forwarded_headers ::
  "js_error + transport \<times> request_options \<Rightarrow> jsstring \<Rightarrow> js_error + header_value option" where
  "forwarded_headers r name =
     (case r of Inl e \<Rightarrow> Inl e | Inr (t, options) \<Rightarrow> Inr (opt_headers options name))"

section \<open>Scenarios\<close>

text \<open>
  The gateway with the defaults of its constructor, and the gateway of the spec's
  redirect scenario, whose host is \<^verbatim>\<open>example.com\<close>.
\<close>

definition default_gateway :: gateway where
  "default_gateway =
     \<lparr>gateway_host = None, force_protocol = None, force_http = True,
      force_websocket_protocol = True, gateway_subdomain = lit ''gateway-proxy'',
      socket_ports = [22]\<rparr>"

definition example_gateway :: gateway where
  "example_gateway = default_gateway\<lparr>gateway_host := Some (lit ''example.com'')\<rparr>"

text \<open>
  The backend \<^verbatim>\<open>http://127.0.0.1:3030\<close> with a given path, as a URL object; a parser made
  from a function that maps every request to it; a parser made from a function that
  returns \<^verbatim>\<open>null\<close>; and a plain \<^verbatim>\<open>GET\<close> request with a given URL and headers.
\<close>

definition example_backend :: "jsstring \<Rightarrow> url" where
  "example_backend path =
     \<lparr>protocol = lit ''http:'', host = lit ''127.0.0.1:3030'', hostname = lit ''127.0.0.1'',
      port = lit ''3030'', pathname = path, search = []\<rparr>"

definition example_parser :: "jsstring \<Rightarrow> gateway_backend_parser" where
  "example_parser path =
     validate_parser (Parser_function (\<lambda>gw req. Inr (Url_object (example_backend path))))"

definition null_parser :: gateway_backend_parser where
  "null_parser = validate_parser (Parser_function (\<lambda>gw req. Inr Url_null))"

definition example_request :: "jsstring \<Rightarrow> (jsstring \<rightharpoonup> jsstring) \<Rightarrow> request" where
  "example_request path hdrs =
     \<lparr>req_protocol = lit ''http'', req_method = lit ''GET'', originalUrl = path,
      baseUrl = Some [], headers = hdrs\<rparr>"

text \<open>
  A \<^verbatim>\<open>next\<close> that returns the number of its arguments, and three filters: one returns
  \<^verbatim>\<open>false\<close>, one calls the \<^verbatim>\<open>next\<close> it was given with \<^verbatim>\<open>'route'\<close>, one returns \<^verbatim>\<open>null\<close>.
\<close>

definition count_next :: next_function where
  "count_next args = JS_number (int (length args))"

definition veto_filter :: gateway_request_filter where
  "veto_filter info req = \<lparr>next_calls = [], filter_return = Inr (JS_bool False)\<rparr>"

definition consuming_filter :: gateway_request_filter where
  "consuming_filter info req =
     \<lparr>next_calls = [[JS_string (lit ''route'')]], filter_return = Inr JS_undefined\<rparr>"

definition null_filter :: gateway_request_filter where
  "null_filter info req = \<lparr>next_calls = [], filter_return = Inr JS_null\<rparr>"

section \<open>Properties of the codec\<close>

lemma lit_simps:
  "lit [] = []"
  "lit (c # cs) = of_char c # lit cs"
  by (simp_all add: lit_def)

lemma toString_digits: "list_all is_digit (toString n)"
proof (induction n rule: toString.induct)
  case (1 n)
  show ?case
  proof (cases "n < 10")
    case True
    then show ?thesis
      by (subst toString.simps) (simp add: is_digit_def)
  next
    case False
    have "n mod 10 < 10" by simp
    then have "is_digit (48 + n mod 10)"
      unfolding is_digit_def by linarith
    with False 1 show ?thesis
      by (subst toString.simps) simp
  qed
qed

lemma is_digit_safe: "is_digit c \<Longrightarrow> is_hostname_safe c"
  by (simp add: is_hostname_safe_def is_word_char_def)

lemma encode_char_safe: "list_all is_hostname_safe (encode_char c)"
proof -
  have "list_all is_digit (padStart (toString c) 3 48)"
    using toString_digits [of c]
    by (auto simp add: padStart_def list_all_iff is_digit_def)
  then have "list_all is_hostname_safe (padStart (toString c) 3 48)"
    by (simp add: list_all_iff is_digit_safe)
  then show ?thesis
    by (simp add: encode_char_def lit_simps is_hostname_safe_def is_word_char_def is_digit_def)
qed

lemma encode_hostname_safe: "list_all is_hostname_safe (encode_hostname s)"
  by (induction s) (simp_all add: encode_char_safe)

lemma encode_hostname_id: "list_all is_hostname_safe s \<Longrightarrow> encode_hostname s = s"
  by (induction s) simp_all

lemma toString_lt10: "n < 10 \<Longrightarrow> toString n = [48 + n]"
  by (subst toString.simps) simp

lemma toString_lt100: "10 \<le> n \<Longrightarrow> n < 100 \<Longrightarrow> toString n = [48 + n div 10, 48 + n mod 10]"
  by (subst toString.simps) (simp add: toString_lt10)

lemma toString_lt1000:
  "100 \<le> n \<Longrightarrow> n < 1000 \<Longrightarrow> toString n = [48 + n div 100, 48 + (n div 10) mod 10, 48 + n mod 10]"
  by (subst toString.simps) (simp add: toString_lt100 div_mult2_eq [symmetric])

lemma padStart_toString:
  assumes "c \<le> 999"
  shows "padStart (toString c) 3 48 = [48 + c div 100, 48 + (c div 10) mod 10, 48 + c mod 10]"
proof -
  consider "c < 10" | "10 \<le> c" "c < 100" | "100 \<le> c" "c < 1000"
    using assms by linarith
  then show ?thesis
  proof cases
    case 1
    then show ?thesis by (simp add: toString_lt10 padStart_def numeral_3_eq_3)
  next
    case 2
    then show ?thesis by (simp add: toString_lt100 padStart_def)
  next
    case 3
    then show ?thesis by (simp add: toString_lt1000 padStart_def)
  qed
qed

lemma encode_char_999:
  "c \<le> 999 \<Longrightarrow> encode_char c = [46, 101, 48 + c div 100, 48 + (c div 10) mod 10, 48 + c mod 10, 46]"
  by (simp add: encode_char_def lit_simps padStart_toString)

lemma parseInt3: "parseInt [48 + a, 48 + b, 48 + c] = 100 * a + 10 * b + c"
  by (simp add: parseInt_def)

lemma digits_value: "100 * (c div 100) + 10 * ((c div 10) mod 10) + c mod 10 = (c::nat)"
proof -
  have "c div 100 = (c div 10) div 10"
    by (simp add: div_mult2_eq [symmetric])
  moreover have "10 * ((c div 10) div 10) + (c div 10) mod 10 = c div 10"
    by simp
  moreover have "10 * (c div 10) + c mod 10 = c"
    by simp
  ultimately show ?thesis
    by linarith
qed

lemma sentinel_match_block:
  assumes "a < 10" "b < 10" "c < 10"
  shows "sentinel_match (46 # 101 # (48 + a) # (48 + b) # (48 + c) # 46 # r)"
  using assms by (simp add: sentinel_match_def lit_simps is_digit_def)

lemma decode_encode_char:
  assumes "c \<le> 999"
  shows "decode_hostname (encode_char c @ r) = c # decode_hostname r"
proof -
  have d: "c div 100 < 10" "(c div 10) mod 10 < 10" "c mod 10 < 10"
    using assms by simp_all
  let ?a = "c div 100" and ?b = "(c div 10) mod 10" and ?c = "c mod 10"
  have m: "sentinel_match (46 # 101 # (48 + ?a) # (48 + ?b) # (48 + ?c) # 46 # r)"
    using d by (rule sentinel_match_block)
  have s: "substr (46 # 101 # (48 + ?a) # (48 + ?b) # (48 + ?c) # 46 # r) 2 3
           = [48 + ?a, 48 + ?b, 48 + ?c]"
    by (simp add: substr_def)
  have f: "fromCharCode c = c"
    using assms by (simp add: fromCharCode_def)
  have "decode_hostname (46 # 101 # (48 + ?a) # (48 + ?b) # (48 + ?c) # 46 # r)
        = fromCharCode (parseInt [48 + ?a, 48 + ?b, 48 + ?c]) # decode_hostname r"
    using m s by (simp del: decode_hostname.simps add: decode_hostname.simps(2))
  also have "\<dots> = c # decode_hostname r"
    by (simp only: parseInt3 digits_value f)
  finally show ?thesis
    using assms by (simp only: encode_char_999 append_Cons append_Nil)
qed

lemma encode_head_nondot:
  assumes "encode_hostname s = a # r" "a \<noteq> 46"
  shows "\<exists>s'. s = a # s' \<and> r = encode_hostname s'"
proof (cases s)
  case Nil
  with assms show ?thesis by simp
next
  case (Cons y ys)
  show ?thesis
  proof (cases "is_hostname_safe y")
    case True
    with Cons assms show ?thesis by simp
  next
    case False
    with Cons assms show ?thesis by (simp add: encode_char_def lit_simps)
  qed
qed

lemma encode_head_dot:
  assumes "encode_hostname s = 46 # r"
  shows "\<exists>u s'. s = u # s' \<and> (u = 46 \<or> \<not> is_hostname_safe u)"
proof (cases s)
  case Nil
  with assms show ?thesis by simp
next
  case (Cons y ys)
  with assms show ?thesis by (cases "is_hostname_safe y") auto
qed

lemma list_five:
  assumes "5 \<le> length xs"
  shows "\<exists>b c d e f r. xs = b # c # d # e # f # r"
proof -
  from assms obtain b r1 where 1: "xs = b # r1" "4 \<le> length r1"
    by (cases xs) simp_all
  then obtain c r2 where 2: "r1 = c # r2" "3 \<le> length r2"
    by (cases r1) simp_all
  then obtain d r3 where 3: "r2 = d # r3" "2 \<le> length r3"
    by (cases r2) simp_all
  then obtain e r4 where 4: "r3 = e # r4" "1 \<le> length r4"
    by (cases r3) simp_all
  then obtain f r where 5: "r4 = f # r"
    by (cases r4) simp_all
  from 1 2 3 4 5 show ?thesis by simp
qed

lemma sentinel_match_encoded:
  assumes "sentinel_match (x # encode_hostname s)"
  shows "sentinel_lookalike (x # s)"
proof -
  from assms have "5 \<le> length (encode_hostname s)"
    by (simp add: sentinel_match_def)
  then obtain b c d e f r where enc: "encode_hostname s = b # c # d # e # f # r"
    using list_five by blast
  with assms have x: "x = 46" and b: "b = 101" and f: "f = 46"
    and dg: "is_digit c" "is_digit d" "is_digit e"
    by (simp_all add: sentinel_match_def lit_simps)
  from dg have nd: "c \<noteq> 46" "d \<noteq> 46" "e \<noteq> 46"
    by (simp_all add: is_digit_def)
  from enc b obtain s1 where s1: "s = 101 # s1" "encode_hostname s1 = c # d # e # f # r"
    using encode_head_nondot [of s b "c # d # e # f # r"] by auto
  from s1 nd obtain s2 where s2: "s1 = c # s2" "encode_hostname s2 = d # e # f # r"
    using encode_head_nondot [of s1 c "d # e # f # r"] by auto
  from s2 nd obtain s3 where s3: "s2 = d # s3" "encode_hostname s3 = e # f # r"
    using encode_head_nondot [of s2 d "e # f # r"] by auto
  from s3 nd obtain s4 where s4: "s3 = e # s4" "encode_hostname s4 = f # r"
    using encode_head_nondot [of s3 e "f # r"] by auto
  from s4 f obtain u s5 where s5: "s4 = u # s5" "u = 46 \<or> \<not> is_hostname_safe u"
    using encode_head_dot [of s4 r] by auto
  show ?thesis
    using x s1 s2 s3 s4 s5 dg
    by (simp add: sentinel_lookalike_def lit_simps)
qed

lemma decode_encode_hostname:
  "list_all (\<lambda>c. c \<le> 999) s \<Longrightarrow> \<not> has_sentinel_lookalike s
   \<Longrightarrow> decode_hostname (encode_hostname s) = s"
proof (induction s)
  case Nil
  show ?case by simp
next
  case (Cons x s)
  then have ih: "decode_hostname (encode_hostname s) = s"
    and x: "x \<le> 999" and nl: "\<not> sentinel_lookalike (x # s)"
    by simp_all
  show ?case
  proof (cases "is_hostname_safe x")
    case True
    from nl have "\<not> sentinel_match (x # encode_hostname s)"
      using sentinel_match_encoded by blast
    with True ih show ?thesis by simp
  next
    case False
    with ih x show ?thesis by (simp add: decode_encode_char)
  qed
qed

lemma sentinel_match_head: "sentinel_match (x # xs) \<Longrightarrow> x = 46"
  by (simp add: sentinel_match_def lit_simps)

lemma decode_skip: "x \<noteq> 46 \<Longrightarrow> decode_hostname (x # xs) = x # decode_hostname xs"
  using sentinel_match_head [of x xs] by auto

lemma is_digit_not_dot: "is_digit d \<Longrightarrow> d \<noteq> 46"
  by (simp add: is_digit_def)

lemma decode_escape_tail:
  assumes "is_digit a" "is_digit b" "is_digit c"
  shows "decode_hostname (101 # a # b # c # ys) = 101 # a # b # c # decode_hostname ys"
  using assms by (simp add: decode_skip is_digit_not_dot del: decode_hostname.simps)

lemma decode_sentinel:
  assumes "is_digit d1" "is_digit d2" "is_digit d3"
  shows "decode_hostname (46 # 101 # d1 # d2 # d3 # 46 # r)
         = fromCharCode (parseInt [d1, d2, d3]) # decode_hostname r"
proof -
  have "sentinel_match (46 # 101 # d1 # d2 # d3 # 46 # r)"
    using assms by (simp add: sentinel_match_def lit_simps)
  then show ?thesis
    by (simp add: substr_def)
qed

lemma sentinel_lookalike_dest:
  assumes "sentinel_lookalike xs"
  shows "\<exists>d1 d2 d3 u r. xs = 46 # 101 # d1 # d2 # d3 # u # r
     \<and> is_digit d1 \<and> is_digit d2 \<and> is_digit d3 \<and> (u = 46 \<or> \<not> is_hostname_safe u)"
proof -
  from assms have "5 \<le> length (tl xs)" "xs \<noteq> []"
    by (auto simp add: sentinel_lookalike_def)
  then obtain x b c d e f r where xs: "xs = x # b # c # d # e # f # r"
    using list_five [of "tl xs"] by (cases xs) auto
  with assms show ?thesis
    by (simp add: sentinel_lookalike_def lit_simps)
qed

lemma encode_safe_prefix:
  assumes "is_digit d1" "is_digit d2" "is_digit d3"
  shows "encode_hostname (46 # 101 # d1 # d2 # d3 # r) = 46 # 101 # d1 # d2 # d3 # encode_hostname r"
proof -
  have "is_hostname_safe 46" "is_hostname_safe 101"
    by (simp_all add: is_hostname_safe_def is_word_char_def)
  with assms show ?thesis
    by (simp add: is_digit_safe)
qed

lemma encode_char_digits:
  assumes "u \<le> 999"
  shows "\<exists>a b c. encode_char u = [46, 101, a, b, c, 46]
     \<and> is_digit a \<and> is_digit b \<and> is_digit c \<and> parseInt [a, b, c] = u"
proof -
  have d: "u div 100 < 10" "(u div 10) mod 10 < 10" "u mod 10 < 10"
    using assms by simp_all
  have "is_digit (48 + u div 100)" "is_digit (48 + (u div 10) mod 10)" "is_digit (48 + u mod 10)"
    using d unfolding is_digit_def by linarith+
  moreover have "parseInt [48 + u div 100, 48 + (u div 10) mod 10, 48 + u mod 10] = u"
    by (simp only: parseInt3 digits_value)
  ultimately show ?thesis
    using encode_char_999 [OF assms] by blast
qed

text \<open>What the decoder makes of an encoded string that starts with a lookalike.\<close>

lemma decode_encode_lookalike:
  assumes "is_digit d1" "is_digit d2" "is_digit d3" "list_all (\<lambda>c. c \<le> 999) (u # r)"
    and "u = 46 \<or> \<not> is_hostname_safe u"
  shows "\<exists>tail. decode_hostname (encode_hostname (46 # 101 # d1 # d2 # d3 # u # r))
           = fromCharCode (parseInt [d1, d2, d3]) # tail
      \<and> (u = 46 \<longrightarrow> tail = decode_hostname (encode_hostname r))
      \<and> (u \<noteq> 46 \<longrightarrow> (\<exists>a b c. tail = 101 # a # b # c # decode_hostname (encode_hostname (46 # r))
                          \<and> parseInt [a, b, c] = u))"
proof (cases "u = 46")
  case True
  have "is_hostname_safe 46"
    by (simp add: is_hostname_safe_def)
  then have "encode_hostname (46 # r) = 46 # encode_hostname r"
    by simp
  with True assms(1-3) show ?thesis
    by (simp add: encode_safe_prefix decode_sentinel del: decode_hostname.simps encode_hostname.simps)
next
  case False
  with assms(5) have ns: "\<not> is_hostname_safe u" by simp
  from assms(4) have "u \<le> 999" by simp
  from encode_char_digits [OF this] obtain a b c where
    e: "encode_char u = [46, 101, a, b, c, 46]" and dg: "is_digit a" "is_digit b" "is_digit c"
    and p: "parseInt [a, b, c] = u"
    by blast
  have s: "is_hostname_safe 46"
    by (simp add: is_hostname_safe_def)
  have "encode_hostname (u # r) = 46 # 101 # a # b # c # 46 # encode_hostname r"
    using ns e by simp
  moreover have "encode_hostname (46 # r) = 46 # encode_hostname r"
    using s by simp
  ultimately have "decode_hostname (encode_hostname (46 # 101 # d1 # d2 # d3 # u # r))
    = fromCharCode (parseInt [d1, d2, d3]) # 101 # a # b # c # decode_hostname (encode_hostname (46 # r))"
    using assms(1-3) dg
    by (simp add: encode_safe_prefix decode_sentinel decode_escape_tail
        del: decode_hostname.simps encode_hostname.simps)
  with False p show ?thesis by blast
qed

lemma decode_encode_step:
  assumes "x \<le> 999" "\<not> sentinel_lookalike (x # s)"
  shows "decode_hostname (encode_hostname (x # s)) = x # decode_hostname (encode_hostname s)"
proof (cases "is_hostname_safe x")
  case True
  from assms(2) have "\<not> sentinel_match (x # encode_hostname s)"
    using sentinel_match_encoded by blast
  with True show ?thesis by simp
next
  case False
  with assms(1) show ?thesis by (simp add: decode_encode_char)
qed

lemma length_decode_encode:
  "list_all (\<lambda>c. c \<le> 999) t \<Longrightarrow> length (decode_hostname (encode_hostname t)) \<le> length t"
proof (induction t rule: length_induct)
  case (1 t)
  have ih: "length (decode_hostname (encode_hostname ys)) \<le> length ys"
    if "length ys < length t" and "list_all (\<lambda>c. c \<le> 999) ys" for ys
    using "1.IH" that by blast
  show ?case
  proof (cases t)
    case Nil
    then show ?thesis by simp
  next
    case (Cons x t1)
    with "1.prems" have x: "x \<le> 999" and t1: "list_all (\<lambda>c. c \<le> 999) t1" by simp_all
    show ?thesis
    proof (cases "sentinel_lookalike (x # t1)")
      case False
      have "length (decode_hostname (encode_hostname t1)) \<le> length t1"
        using Cons t1 by (intro ih) simp_all
      with decode_encode_step [OF x False] Cons show ?thesis by simp
    next
      case True
      from sentinel_lookalike_dest [OF True] obtain d1 d2 d3 u r where
        xs: "x # t1 = 46 # 101 # d1 # d2 # d3 # u # r" and dg: "is_digit d1" "is_digit d2" "is_digit d3"
        and u: "u = 46 \<or> \<not> is_hostname_safe u"
        by blast
      from xs t1 have ur: "list_all (\<lambda>c. c \<le> 999) (u # r)" by auto
      from decode_encode_lookalike [OF dg ur u] obtain tail where
        d: "decode_hostname (encode_hostname (x # t1)) = fromCharCode (parseInt [d1, d2, d3]) # tail"
        and t46: "u = 46 \<longrightarrow> tail = decode_hostname (encode_hostname r)"
        and tn: "u \<noteq> 46 \<longrightarrow> (\<exists>a b c. tail = 101 # a # b # c # decode_hostname (encode_hostname (46 # r))
                          \<and> parseInt [a, b, c] = u)"
        unfolding xs by blast
      have len: "length t = 6 + length r"
        using Cons xs by simp
      have r: "list_all (\<lambda>c. c \<le> 999) r" "list_all (\<lambda>c. c \<le> 999) (46 # r)"
        using ur by simp_all
      have "length tail \<le> 5 + length r"
      proof (cases "u = 46")
        case True
        with t46 have "tail = decode_hostname (encode_hostname r)" by simp
        moreover have "length (decode_hostname (encode_hostname r)) \<le> length r"
          using len r(1) by (intro ih) simp_all
        ultimately show ?thesis by simp
      next
        case False
        with tn obtain a b c where
          "tail = 101 # a # b # c # decode_hostname (encode_hostname (46 # r))"
          by blast
        moreover have "length (decode_hostname (encode_hostname (46 # r))) \<le> length (46 # r)"
          using len r(2) by (intro ih) simp_all
        ultimately show ?thesis by simp
      qed
      with d len Cons show ?thesis by simp
    qed
  qed
qed

lemma lookalike_breaks_round_trip:
  assumes "list_all (\<lambda>c. c \<le> 999) s" "has_sentinel_lookalike s"
  shows "decode_hostname (encode_hostname s) \<noteq> s"
  using assms
proof (induction s)
  case Nil
  then show ?case by simp
next
  case (Cons x s)
  then have x: "x \<le> 999" and s: "list_all (\<lambda>c. c \<le> 999) s" by simp_all
  show ?case
  proof (cases "sentinel_lookalike (x # s)")
    case False
    with Cons.prems have "has_sentinel_lookalike s" by simp
    with Cons.IH s have "decode_hostname (encode_hostname s) \<noteq> s" by simp
    with decode_encode_step [OF x False] show ?thesis by simp
  next
    case True
    from sentinel_lookalike_dest [OF True] obtain d1 d2 d3 u r where
      xs: "x # s = 46 # 101 # d1 # d2 # d3 # u # r" and dg: "is_digit d1" "is_digit d2" "is_digit d3"
      and u: "u = 46 \<or> \<not> is_hostname_safe u"
      by blast
    from xs s have ur: "list_all (\<lambda>c. c \<le> 999) (u # r)" by auto
    from decode_encode_lookalike [OF dg ur u] obtain tail where
      d: "decode_hostname (encode_hostname (x # s)) = fromCharCode (parseInt [d1, d2, d3]) # tail"
      and t46: "u = 46 \<longrightarrow> tail = decode_hostname (encode_hostname r)"
      and tn: "u \<noteq> 46 \<longrightarrow> (\<exists>a b c. tail = 101 # a # b # c # decode_hostname (encode_hostname (46 # r))
                        \<and> parseInt [a, b, c] = u)"
      unfolding xs by blast
    show ?thesis
    proof
      assume eq: "decode_hostname (encode_hostname (x # s)) = x # s"
      with d xs have c0: "fromCharCode (parseInt [d1, d2, d3]) = 46"
        and tl: "tail = 101 # d1 # d2 # d3 # u # r"
        by simp_all
      show False
      proof (cases "u = 46")
        case True
        with t46 tl have "decode_hostname (encode_hostname r) = 101 # d1 # d2 # d3 # u # r"
          by simp
        then have "length (decode_hostname (encode_hostname r)) = 5 + length r"
          by simp
        moreover have "length (decode_hostname (encode_hostname r)) \<le> length r"
          using ur by (simp add: length_decode_encode)
        ultimately show False by simp
      next
        case False
        with tn obtain a b c where
          t: "tail = 101 # a # b # c # decode_hostname (encode_hostname (46 # r))"
          and p: "parseInt [a, b, c] = u"
          by blast
        from t tl have "a = d1" "b = d2" "c = d3" by simp_all
        with p have pu: "parseInt [d1, d2, d3] = u" by simp
        from ur have "u \<le> 999" by simp
        then have "fromCharCode u = u" by (simp add: fromCharCode_def)
        with c0 pu have "u = 46" by simp
        with False show False by simp
      qed
    qed
  qed
qed

lemma encode_example: "encode_hostname (lit ''127.0.0.1:3030'') = lit ''127.0.0.1.e058.3030''"
  by code_simp

text \<open>
  C1, as the code has it. A string of characters with codepoints up to 999 survives
  encoding and decoding exactly when it holds no sentinel lookalike (\<^verbatim>\<open>.e\<close> and three
  digits followed by a dot or by a character that the encoder escapes); and a string of
  safe characters is encoded as itself. The dot, \<^verbatim>\<open>e\<close> and the digits are safe
  characters, so the decoder cannot tell an escape from the same characters of the
  original string.
\<close>

theorem codec_round_trip:
  "(list_all (\<lambda>c. c \<le> 999) s
      \<longrightarrow> (decode_hostname (encode_hostname s) = s \<longleftrightarrow> \<not> has_sentinel_lookalike s))
   \<and> (list_all is_hostname_safe s \<longrightarrow> encode_hostname s = s)"
  using decode_encode_hostname [of s] lookalike_breaks_round_trip [of s]
    encode_hostname_id [of s]
  by blast

theorem codec_round_trip_witness:
  "list_all (\<lambda>c. c \<le> 999) (lit ''127.0.0.1:3000'')
   \<and> \<not> has_sentinel_lookalike (lit ''127.0.0.1:3000'')
   \<and> decode_hostname (encode_hostname (lit ''127.0.0.1:3000'')) = lit ''127.0.0.1:3000''
   \<and> list_all is_hostname_safe (lit ''localhost'')
   \<and> encode_hostname (lit ''localhost'') = lit ''localhost''"
proof -
  have h1: "list_all (\<lambda>c. c \<le> 999) (lit ''127.0.0.1:3000'')
            \<and> \<not> has_sentinel_lookalike (lit ''127.0.0.1:3000'')"
    by (simp add: sentinel_lookalike_def lit_simps)
  have h2: "list_all is_hostname_safe (lit ''localhost'')"
    by (simp add: is_hostname_safe_def is_word_char_def is_digit_def lit_simps)
  from h1 h2 codec_round_trip [of "lit ''127.0.0.1:3000''"] codec_round_trip [of "lit ''localhost''"]
  show ?thesis by blast
qed

text \<open>
  The round trip as C1 states it fails on the host name \<^verbatim>\<open>node.e100.local\<close>: its characters
  are safe (and below 999), so the encoder returns it unchanged, and the decoder reads
  \<^verbatim>\<open>.e100.\<close> in it as the escape of the letter d.
\<close>

theorem codec_round_trip_counterexample:
  "list_all (\<lambda>c. c \<le> 999) (lit ''node.e100.local'')
   \<and> list_all is_hostname_safe (lit ''node.e100.local'')
   \<and> encode_hostname (lit ''node.e100.local'') = lit ''node.e100.local''
   \<and> decode_hostname (encode_hostname (lit ''node.e100.local'')) = lit ''nodedlocal''
   \<and> decode_hostname (encode_hostname (lit ''node.e100.local'')) \<noteq> lit ''node.e100.local''"
  by (simp add: is_hostname_safe_def is_word_char_def is_digit_def sentinel_match_def
      substr_def parseInt_def fromCharCode_def lit_simps)

text \<open>
  C10. Encoding is idempotent: every character of the encoder's output is in the safe
  set \<^verbatim>\<open>[A-Za-z0-9_.-]\<close>, which the encoder leaves as it is, so encoding an encoded string
  changes nothing.
\<close>

theorem encode_hostname_idempotent:
  "list_all is_hostname_safe (encode_hostname s)
   \<and> encode_hostname (encode_hostname s) = encode_hostname s"
  using encode_hostname_safe [of s] encode_hostname_id [of "encode_hostname s"] by simp

theorem encode_hostname_idempotent_witness:
  "encode_hostname (encode_hostname (lit ''127.0.0.1:3030'')) = lit ''127.0.0.1.e058.3030''"
  using encode_hostname_idempotent [of "lit ''127.0.0.1:3030''"] encode_example by simp

section \<open>Properties of the DNS status map\<close>

text \<open>
  C6. \<^verbatim>\<open>map_dns_status_to_http_code\<close> returns 403, 404 or 500 on every value; it maps
  \<^verbatim>\<open>NOTFOUND\<close> to 404, \<^verbatim>\<open>REFUSED\<close>, \<^verbatim>\<open>CANCELLED\<close> and \<^verbatim>\<open>CONNREFUSED\<close> to 403, and every
  other value, \<^verbatim>\<open>null\<close> and \<^verbatim>\<open>undefined\<close> among them, to 500. The constants of the
  \<^verbatim>\<open>dns\<close> module are a parameter; \<^verbatim>\<open>NOTFOUND\<close> differs from the other three, as it does
  in Node.
\<close>

theorem map_dns_status_total:
  assumes "NOTFOUND dns \<notin> {REFUSED dns, CANCELLED dns, CONNREFUSED dns}"
  shows "map_dns_status_to_http_code dns c \<in> {403, 404, 500}
    \<and> map_dns_status_to_http_code dns (JS_string (NOTFOUND dns)) = 404
    \<and> map_dns_status_to_http_code dns (JS_string (REFUSED dns)) = 403
    \<and> map_dns_status_to_http_code dns (JS_string (CANCELLED dns)) = 403
    \<and> map_dns_status_to_http_code dns (JS_string (CONNREFUSED dns)) = 403
    \<and> (c \<notin> JS_string ` {NOTFOUND dns, REFUSED dns, CANCELLED dns, CONNREFUSED dns}
         \<longrightarrow> map_dns_status_to_http_code dns c = 500)
    \<and> map_dns_status_to_http_code dns JS_null = 500
    \<and> map_dns_status_to_http_code dns JS_undefined = 500"
  using assms by (auto simp add: map_dns_status_to_http_code_def)

theorem map_dns_status_total_witness:
  "NOTFOUND node_dns \<notin> {REFUSED node_dns, CANCELLED node_dns, CONNREFUSED node_dns}
   \<and> map_dns_status_to_http_code node_dns (JS_string (lit ''ENOTFOUND'')) = 404
   \<and> map_dns_status_to_http_code node_dns (JS_string (lit ''ECONNREFUSED'')) = 403
   \<and> JS_string (lit ''ETIMEOUT'')
        \<notin> JS_string ` {NOTFOUND node_dns, REFUSED node_dns, CANCELLED node_dns, CONNREFUSED node_dns}
   \<and> map_dns_status_to_http_code node_dns (JS_string (lit ''ETIMEOUT'')) = 500
   \<and> map_dns_status_to_http_code node_dns (JS_string (lit ''[unknown]'')) \<in> {403, 404, 500}"
proof -
  have h: "NOTFOUND node_dns \<notin> {REFUSED node_dns, CANCELLED node_dns, CONNREFUSED node_dns}"
    by (simp add: node_dns_def lit_simps)
  have n: "JS_string (lit ''ETIMEOUT'')
        \<notin> JS_string ` {NOTFOUND node_dns, REFUSED node_dns, CANCELLED node_dns, CONNREFUSED node_dns}"
    by (simp add: node_dns_def lit_simps)
  have e: "NOTFOUND node_dns = lit ''ENOTFOUND''" "CONNREFUSED node_dns = lit ''ECONNREFUSED''"
    by (simp_all add: node_dns_def)
  from map_dns_status_total [OF h, of "JS_string (lit ''ETIMEOUT'')"]
       map_dns_status_total [OF h, of "JS_string (lit ''[unknown]'')"] h n e
  show ?thesis by metis
qed

section \<open>Properties of the classifier\<close>

lemma to_URL_not_null: "to_URL pf v = Inr u \<Longrightarrow> v \<noteq> Url_null \<and> v \<noteq> Url_undefined"
  by (auto simp add: to_URL_def)

lemma intercept_info_intercepted:
  assumes "(if is_gateway_host info then Inr (backend_url info)
            else parse_url_from_route pf parser gw req) = Inr v"
    and "to_URL pf v = Inr u"
    and "parse_method parser gw req = Inr m"
    and "parse_protocol parser gw req = Inr proto"
  shows "parse_request_intercept_info pf gw parser info req =
    Inr (info
      \<lparr>is_gateway_intercept := True,
       target_id := Some (case target_id info of
                            None \<Rightarrow> host u
                          | Some t \<Rightarrow> if t = [] then host u else t),
       target_method := Some m,
       backend_url := Url_object
         (if is_websocket_request info
          then URL_set_pathname pf (URL_set_protocol pf u proto)
                 (strip_websocket_suffix (pathname (URL_set_protocol pf u proto)))
          else URL_set_protocol pf u proto)\<rparr>)"
  using assms to_URL_not_null [OF assms(2)]
  by (simp add: parse_request_intercept_info_def Let_def)

lemma intercept_info_passed:
  assumes "(if is_gateway_host info then Inr (backend_url info)
            else parse_url_from_route pf parser gw req) = Inr v"
    and "v = Url_null \<or> v = Url_undefined"
  shows "parse_request_intercept_info pf gw parser info req =
    Inr (info\<lparr>is_gateway_intercept := False, backend_url := v\<rparr>)"
  using assms by (auto simp add: parse_request_intercept_info_def)

lemma intercept_info_shape:
  assumes "parse_request_intercept_info pf gw parser info req = Inr info2"
    and "is_gateway_intercept info2"
  shows "\<exists>u tid. backend_url info2 = Url_object u \<and> target_id info2 = Some tid
     \<and> is_websocket_request info2 = is_websocket_request info
     \<and> is_gateway_host info2 = is_gateway_host info"
  using assms
  by (auto simp add: parse_request_intercept_info_def Let_def
      split: sum.splits if_splits)

lemma endsWith_take: "endsWith p t \<Longrightarrow> take (length p - length t) p @ t = p"
proof -
  assume "endsWith p t"
  then have "drop (length p - length t) p = t"
    by (simp add: endsWith_def)
  then show ?thesis
    using append_take_drop_id [of "length p - length t" p] by simp
qed

lemma strip_websocket_suffix_spec:
  "(endsWith p (lit ''/.websocket'') \<longrightarrow> strip_websocket_suffix p @ lit ''/.websocket'' = p)
   \<and> (\<not> endsWith p (lit ''/.websocket'') \<longrightarrow> strip_websocket_suffix p = p)"
  using endsWith_take [of p "lit ''/.websocket''"]
  by (simp only: strip_websocket_suffix_def if_True if_False split: if_split) blast

lemmas example_defs = default_gateway_def example_gateway_def example_backend_def
  example_parser_def example_request_def validate_parser_def simple_platform_def

lemmas middleware_defs = run_middleware_def intercept_phase_def parse_request_core_info_def
  parse_request_intercept_info_def get_gateway_host_def req_get_def parse_url_from_route_def
  parse_url_from_id_def parse_protocol_def parse_method_def to_URL_def construct_URL_def
  get_gateway_host_redirect_def send_proxy_request_def create_websocket_proxy_def
  create_proxy_request_def new_GatewayRequestInfo_def caught_def endsWith_def
  strip_websocket_suffix_def substr_def

text \<open>
  C2, as the code has it. With \<^verbatim>\<open>force_http\<close> set and no \<^verbatim>\<open>parse_protocol\<close> callback, the
  protocol resolution returns \<^verbatim>\<open>force_protocol\<close> (the request's protocol when none is
  forced) with \<^verbatim>\<open>https\<close> replaced by \<^verbatim>\<open>http\<close>: the result is never \<^verbatim>\<open>https\<close>, and every
  other value, \<^verbatim>\<open>wss\<close> among them, is returned as it is. Phase 2 assigns that result to
  the protocol of the backend URL.
\<close>

theorem force_http_downgrade:
  assumes "force_http gw" and "cb_parse_protocol parser = None"
  shows "(let resolved = (case force_protocol gw of None \<Rightarrow> req_protocol req | Some fp \<Rightarrow> fp);
              downgraded = (if resolved = lit ''https'' then lit ''http'' else resolved)
          in parse_protocol parser gw req = Inr downgraded
             \<and> downgraded \<noteq> lit ''https''
             \<and> ((if is_gateway_host info then Inr (backend_url info)
                   else parse_url_from_route pf parser gw req) = Inr v
                  \<and> to_URL pf v = Inr u \<and> parse_method parser gw req = Inr m
                \<longrightarrow> map_sum id backend_url (parse_request_intercept_info pf gw parser info req)
                    = Inr (Url_object
                        (if is_websocket_request info
                         then URL_set_pathname pf (URL_set_protocol pf u downgraded)
                                (strip_websocket_suffix
                                   (pathname (URL_set_protocol pf u downgraded)))
                         else URL_set_protocol pf u downgraded))))"
proof -
  define resolved where "resolved = (case force_protocol gw of None \<Rightarrow> req_protocol req | Some fp \<Rightarrow> fp)"
  define downgraded where "downgraded = (if resolved = lit ''https'' then lit ''http'' else resolved)"
  have p: "parse_protocol parser gw req = Inr downgraded"
    using assms by (simp add: parse_protocol_def resolved_def downgraded_def)
  have n: "downgraded \<noteq> lit ''https''"
    by (simp add: downgraded_def lit_simps)
  have i: "map_sum id backend_url (parse_request_intercept_info pf gw parser info req)
           = Inr (Url_object
                (if is_websocket_request info
                 then URL_set_pathname pf (URL_set_protocol pf u downgraded)
                        (strip_websocket_suffix (pathname (URL_set_protocol pf u downgraded)))
                 else URL_set_protocol pf u downgraded))"
    if "(if is_gateway_host info then Inr (backend_url info)
         else parse_url_from_route pf parser gw req) = Inr v"
      and "to_URL pf v = Inr u" and "parse_method parser gw req = Inr m"
    using intercept_info_intercepted [OF that p] by simp
  from p n i show ?thesis
    unfolding Let_def resolved_def [symmetric] downgraded_def [symmetric] by blast
qed

theorem force_http_downgrade_witness:
  "force_http default_gateway
   \<and> cb_parse_protocol (example_parser (lit ''/x'')) = None
   \<and> parse_protocol (example_parser (lit ''/x'')) default_gateway
        ((example_request (lit ''/backend/x'') Map.empty)\<lparr>req_protocol := lit ''https''\<rparr>)
      = Inr (lit ''http'')
   \<and> map_sum id backend_url
        (parse_request_intercept_info simple_platform default_gateway (example_parser (lit ''/x''))
           new_GatewayRequestInfo
           ((example_request (lit ''/backend/x'') Map.empty)\<lparr>req_protocol := lit ''https''\<rparr>))
      = Inr (Url_object (example_backend (lit ''/x'')))"
proof -
  let ?parser = "example_parser (lit ''/x'')"
  let ?req = "(example_request (lit ''/backend/x'') Map.empty)\<lparr>req_protocol := lit ''https''\<rparr>"
  let ?u = "example_backend (lit ''/x'')"
  have f: "force_http default_gateway"
    by (simp add: default_gateway_def)
  have c: "cb_parse_protocol ?parser = None"
    by (simp add: example_parser_def validate_parser_def)
  have d: "(let resolved = (case force_protocol default_gateway of
                              None \<Rightarrow> req_protocol ?req | Some fp \<Rightarrow> fp)
            in if resolved = lit ''https'' then lit ''http'' else resolved) = lit ''http''"
    by (simp add: default_gateway_def example_request_def)
  have r: "(if is_gateway_host new_GatewayRequestInfo
            then Inr (backend_url new_GatewayRequestInfo)
            else parse_url_from_route simple_platform ?parser default_gateway ?req)
           = Inr (Url_object ?u)"
    by (simp add: new_GatewayRequestInfo_def parse_url_from_route_def example_parser_def
        validate_parser_def)
  have t: "to_URL simple_platform (Url_object ?u) = Inr ?u"
    by (simp add: to_URL_def)
  have m: "parse_method ?parser default_gateway ?req = Inr (lit ''GET'')"
    by (simp add: parse_method_def example_parser_def validate_parser_def example_request_def)
  have u: "URL_set_protocol simple_platform ?u (lit ''http'') = ?u"
    by (simp add: simple_platform_def example_backend_def lit_simps)
  have w: "\<not> is_websocket_request new_GatewayRequestInfo"
    by (simp add: new_GatewayRequestInfo_def)
  from force_http_downgrade [OF f c, of ?req new_GatewayRequestInfo simple_platform
      "Url_object ?u" ?u "lit ''GET''"] d r t m u w
  have "parse_protocol ?parser default_gateway ?req = Inr (lit ''http'')
    \<and> map_sum id backend_url
        (parse_request_intercept_info simple_platform default_gateway ?parser
           new_GatewayRequestInfo ?req)
      = Inr (Url_object ?u)"
    by (simp add: Let_def)
  with f c show ?thesis by blast
qed

text \<open>
  The downgrade as C2 states it fails for a gateway built with \<^verbatim>\<open>force_http: true\<close> and
  \<^verbatim>\<open>force_protocol: 'wss'\<close>: the protocol resolution returns \<^verbatim>\<open>wss\<close>, and the websocket
  request goes upstream through the TLS module with the protocol \<^verbatim>\<open>wss:\<close>.
\<close>

theorem force_http_downgrade_counterexample:
  "force_http (default_gateway\<lparr>force_protocol := Some (lit ''wss'')\<rparr>)
   \<and> parse_protocol (example_parser (lit ''/echo/ws''))
        (default_gateway\<lparr>force_protocol := Some (lit ''wss'')\<rparr>)
        (example_request (lit ''/gateway/echo/ws'')
           [lit ''host'' \<mapsto> lit ''localhost:3000'', lit ''upgrade'' \<mapsto> lit ''websocket''])
      = Inr (lit ''wss'')
   \<and> upstream_protocols (effects (run_middleware simple_platform
        (default_gateway\<lparr>force_protocol := Some (lit ''wss'')\<rparr>)
        (example_parser (lit ''/echo/ws''))
        None
        (example_request (lit ''/gateway/echo/ws'')
           [lit ''host'' \<mapsto> lit ''localhost:3000'', lit ''upgrade'' \<mapsto> lit ''websocket''])
        (\<lambda>args. JS_undefined)))
      = [(Websocket_tunnel, Tls_https, lit ''wss:'')]"
  by (simp add: middleware_defs example_defs upstream_protocols_def lastIndexOf_def lit_simps)

text \<open>
  C9. In phase 2 of an intercepted request the pathname of the backend URL is reassigned
  exactly when the request is a websocket request, and then to the pathname without a
  trailing \<^verbatim>\<open>/.websocket\<close>; for any other request the URL is left as the protocol
  assignment made it. Stripping removes exactly that suffix when the path ends with it
  and changes nothing otherwise.
\<close>

theorem websocket_path_strip:
  assumes "(if is_gateway_host info then Inr (backend_url info)
            else parse_url_from_route pf parser gw req) = Inr v"
    and "to_URL pf v = Inr u"
    and "parse_method parser gw req = Inr m"
    and "parse_protocol parser gw req = Inr proto"
  shows "\<exists>info2. parse_request_intercept_info pf gw parser info req = Inr info2
    \<and> is_gateway_intercept info2
    \<and> is_websocket_request info2 = is_websocket_request info
    \<and> backend_url info2 = Url_object
         (if is_websocket_request info
          then URL_set_pathname pf (URL_set_protocol pf u proto)
                 (strip_websocket_suffix (pathname (URL_set_protocol pf u proto)))
          else URL_set_protocol pf u proto)
    \<and> (endsWith p (lit ''/.websocket'')
         \<longrightarrow> strip_websocket_suffix p @ lit ''/.websocket'' = p)
    \<and> (\<not> endsWith p (lit ''/.websocket'') \<longrightarrow> strip_websocket_suffix p = p)"
  using intercept_info_intercepted [OF assms] strip_websocket_suffix_spec [of p]
  by simp

theorem websocket_path_strip_witness:
  "parse_url_from_route simple_platform (example_parser (lit ''/echo/ws/.websocket''))
       default_gateway (example_request (lit ''/gateway/echo/ws/.websocket'') Map.empty)
     = Inr (Url_object (example_backend (lit ''/echo/ws/.websocket'')))
   \<and> to_URL simple_platform (Url_object (example_backend (lit ''/echo/ws/.websocket'')))
     = Inr (example_backend (lit ''/echo/ws/.websocket''))
   \<and> map_sum id backend_url
       (parse_request_intercept_info simple_platform default_gateway
          (example_parser (lit ''/echo/ws/.websocket''))
          (new_GatewayRequestInfo\<lparr>is_websocket_request := True\<rparr>)
          (example_request (lit ''/gateway/echo/ws/.websocket'') Map.empty))
     = Inr (Url_object (example_backend (lit ''/echo/ws'')))
   \<and> map_sum id backend_url
       (parse_request_intercept_info simple_platform default_gateway
          (example_parser (lit ''/echo/ws/.websocket''))
          (new_GatewayRequestInfo\<lparr>is_websocket_request := False\<rparr>)
          (example_request (lit ''/gateway/echo/ws/.websocket'') Map.empty))
     = Inr (Url_object (example_backend (lit ''/echo/ws/.websocket'')))
   \<and> endsWith (lit ''/echo/ws/.websocket'') (lit ''/.websocket'')
   \<and> strip_websocket_suffix (lit ''/echo/ws/.websocket'') = lit ''/echo/ws''"
proof -
  let ?parser = "example_parser (lit ''/echo/ws/.websocket'')"
  let ?req = "example_request (lit ''/gateway/echo/ws/.websocket'') Map.empty"
  let ?u = "example_backend (lit ''/echo/ws/.websocket'')"
  have r: "parse_url_from_route simple_platform ?parser default_gateway ?req = Inr (Url_object ?u)"
    by (simp add: parse_url_from_route_def example_parser_def validate_parser_def)
  have t: "to_URL simple_platform (Url_object ?u) = Inr ?u"
    by (simp add: to_URL_def)
  have m: "parse_method ?parser default_gateway ?req = Inr (lit ''GET'')"
    by (simp add: parse_method_def example_parser_def validate_parser_def example_request_def)
  have p: "parse_protocol ?parser default_gateway ?req = Inr (lit ''http'')"
    by (simp add: parse_protocol_def example_parser_def validate_parser_def example_request_def
        default_gateway_def lit_simps)
  have e: "endsWith (lit ''/echo/ws/.websocket'') (lit ''/.websocket'')"
    by (simp add: endsWith_def lit_simps)
  have s: "strip_websocket_suffix (lit ''/echo/ws/.websocket'') = lit ''/echo/ws''"
    using e by (simp add: strip_websocket_suffix_def lit_simps)
  have u1: "URL_set_protocol simple_platform ?u (lit ''http'') = ?u"
    by (simp add: simple_platform_def example_backend_def lit_simps)
  have u2: "URL_set_pathname simple_platform ?u (lit ''/echo/ws'') = example_backend (lit ''/echo/ws'')"
    by (simp add: simple_platform_def example_backend_def)
  have a: "(if is_gateway_host (new_GatewayRequestInfo\<lparr>is_websocket_request := b\<rparr>)
            then Inr (backend_url (new_GatewayRequestInfo\<lparr>is_websocket_request := b\<rparr>))
            else parse_url_from_route simple_platform ?parser default_gateway ?req)
           = Inr (Url_object ?u)" for b
    using r by (simp add: new_GatewayRequestInfo_def)
  have pn: "pathname ?u = lit ''/echo/ws/.websocket''"
    by (simp add: example_backend_def)
  from websocket_path_strip [OF a [of True] t m p, of "lit ''/echo/ws/.websocket''"]
  have w: "map_sum id backend_url
       (parse_request_intercept_info simple_platform default_gateway ?parser
          (new_GatewayRequestInfo\<lparr>is_websocket_request := True\<rparr>) ?req)
     = Inr (Url_object (example_backend (lit ''/echo/ws'')))"
    by (auto simp add: u1 u2 pn s)
  from websocket_path_strip [OF a [of False] t m p, of "lit ''/echo/ws/.websocket''"]
  have n: "map_sum id backend_url
       (parse_request_intercept_info simple_platform default_gateway ?parser
          (new_GatewayRequestInfo\<lparr>is_websocket_request := False\<rparr>) ?req)
     = Inr (Url_object ?u)"
    by (auto simp add: u1)
  from r t w n e s show ?thesis
    by blast
qed

section \<open>Properties of the middleware\<close>

lemma run_middleware_proceeds:
  assumes "parse_request_core_info pf gw parser new_GatewayRequestInfo req = Inr info"
    and "filter_proceeds request_filter info req"
  shows "run_middleware pf gw parser request_filter req next
         = intercept_phase pf gw parser info req next"
  using assms
  by (auto simp add: run_middleware_def filter_proceeds_def Let_def
      split: option.splits sum.splits)

lemma core_info_gateway_host:
  assumes "parse_request_core_info pf gw parser info0 req = Inr info"
  shows "\<exists>gh. get_gateway_host gw req = Inr gh"
  using assms by (cases "get_gateway_host gw req") (simp_all add: parse_request_core_info_def)

lemma intercept_phase_redirect:
  assumes "parse_request_intercept_info pf gw parser info req = Inr info2"
    and "is_gateway_intercept info2" "\<not> is_websocket_request info2" "\<not> is_gateway_host info2"
    and "backend_url info2 = Url_object u" "target_id info2 = Some tid"
    and "get_gateway_host gw req = Inr gh"
  shows "intercept_phase pf gw parser info req next =
     \<lparr>effects = [Emit_log (lit ''INFO''),
                 Res_redirect (protocol u @ lit ''//'' @ encode_hostname tid @ lit ''.''
                    @ gateway_subdomain gw @ lit ''.'' @ gh @ pathname u @ search u)],
      returned = JS_undefined\<rparr>"
  using assms by (simp add: intercept_phase_def get_gateway_host_redirect_def)

lemma example_core_info:
  "parse_request_core_info simple_platform example_gateway (example_parser (lit ''/x''))
       new_GatewayRequestInfo
       (example_request (lit ''/backend/x'') [lit ''host'' \<mapsto> lit ''example.com''])
     = Inr (new_GatewayRequestInfo
              \<lparr>gateway_domain_postfix := Some (lit ''gateway-proxy.example.com'')\<rparr>)"
  by (simp add: parse_request_core_info_def get_gateway_host_def req_get_def example_defs
      new_GatewayRequestInfo_def endsWith_def lit_simps)

lemma example_redirect:
  "intercept_phase simple_platform example_gateway (example_parser (lit ''/x''))
       (new_GatewayRequestInfo\<lparr>gateway_domain_postfix := Some (lit ''gateway-proxy.example.com'')\<rparr>)
       (example_request (lit ''/backend/x'') [lit ''host'' \<mapsto> lit ''example.com''])
       next
   = \<lparr>effects =
        [Emit_log (lit ''INFO''),
         Res_redirect (lit ''http://127.0.0.1.e058.3030.gateway-proxy.example.com/x'')],
      returned = JS_undefined\<rparr>"
proof -
  have "protocol (example_backend (lit ''/x'')) @ lit ''//'' @ encode_hostname (lit ''127.0.0.1:3030'')
           @ lit ''.'' @ gateway_subdomain example_gateway @ lit ''.'' @ lit ''example.com''
           @ pathname (example_backend (lit ''/x'')) @ search (example_backend (lit ''/x''))
           = lit ''http://127.0.0.1.e058.3030.gateway-proxy.example.com/x''"
    unfolding encode_example by (simp add: example_defs lit_simps)
  then show ?thesis
    by (simp add: intercept_phase_def parse_request_intercept_info_def parse_url_from_route_def
        to_URL_def parse_method_def parse_protocol_def get_gateway_host_redirect_def
        get_gateway_host_def example_defs new_GatewayRequestInfo_def lit_simps)
qed

text \<open>
  C3. For a request that phase 1 classified and a filter that returned a value \<open>v\<close>:
  when \<open>v\<close> is \<^verbatim>\<open>false\<close> and the filter did not call the \<^verbatim>\<open>next\<close> it was given, the
  middleware calls \<^verbatim>\<open>next()\<close> and returns its result, and whenever \<open>v\<close> is \<^verbatim>\<open>false\<close> a
  \<^verbatim>\<open>next\<close> is called and nothing is intercepted; when the filter called the \<^verbatim>\<open>next\<close> it
  was given, the middleware returns the result of the last such call and makes no call
  of its own; for any other value (\<^verbatim>\<open>null\<close>, \<^verbatim>\<open>undefined\<close>, 0, a truthy value) the run
  goes on with phase 2 and the dispatch on its result.
\<close>

theorem filter_tri_state:
  assumes "parse_request_core_info pf gw parser new_GatewayRequestInfo req = Inr info"
    and "filter_return (f info req) = Inr v"
  shows "(v = JS_bool False \<and> next_calls (f info req) = []
          \<longrightarrow> run_middleware pf gw parser (Some f) req next
              = \<lparr>effects = [Call_next []], returned = next []\<rparr>)
    \<and> (v = JS_bool False
          \<longrightarrow> list_ex is_next_call (effects (run_middleware pf gw parser (Some f) req next))
              \<and> \<not> list_ex is_interception
                    (effects (run_middleware pf gw parser (Some f) req next)))
    \<and> (next_calls (f info req) \<noteq> []
          \<longrightarrow> run_middleware pf gw parser (Some f) req next
              = \<lparr>effects = map Call_next (next_calls (f info req)),
                 returned = next (last (next_calls (f info req)))\<rparr>)
    \<and> (v \<noteq> JS_bool False \<and> next_calls (f info req) = []
          \<longrightarrow> run_middleware pf gw parser (Some f) req next
              = intercept_phase pf gw parser info req next)"
  using assms
  by (auto simp add: run_middleware_def Let_def is_next_call_def is_interception_def
      list_ex_iff neq_Nil_conv)

theorem filter_tri_state_witness:
  "parse_request_core_info simple_platform example_gateway (example_parser (lit ''/x''))
       new_GatewayRequestInfo
       (example_request (lit ''/backend/x'') [lit ''host'' \<mapsto> lit ''example.com''])
     = Inr (new_GatewayRequestInfo
              \<lparr>gateway_domain_postfix := Some (lit ''gateway-proxy.example.com'')\<rparr>)
   \<and> run_middleware simple_platform example_gateway (example_parser (lit ''/x''))
         (Some veto_filter)
         (example_request (lit ''/backend/x'') [lit ''host'' \<mapsto> lit ''example.com''])
         count_next
     = \<lparr>effects = [Call_next []], returned = JS_number 0\<rparr>
   \<and> run_middleware simple_platform example_gateway (example_parser (lit ''/x''))
         (Some consuming_filter)
         (example_request (lit ''/backend/x'') [lit ''host'' \<mapsto> lit ''example.com''])
         count_next
     = \<lparr>effects = [Call_next [JS_string (lit ''route'')]], returned = JS_number 1\<rparr>
   \<and> run_middleware simple_platform example_gateway (example_parser (lit ''/x''))
         (Some null_filter)
         (example_request (lit ''/backend/x'') [lit ''host'' \<mapsto> lit ''example.com''])
         count_next
     = \<lparr>effects =
          [Emit_log (lit ''INFO''),
           Res_redirect (lit ''http://127.0.0.1.e058.3030.gateway-proxy.example.com/x'')],
        returned = JS_undefined\<rparr>"
proof -
  let ?parser = "example_parser (lit ''/x'')"
  let ?req = "example_request (lit ''/backend/x'') [lit ''host'' \<mapsto> lit ''example.com'']"
  let ?info = "new_GatewayRequestInfo\<lparr>gateway_domain_postfix := Some (lit ''gateway-proxy.example.com'')\<rparr>"
  note c = example_core_info
  have v: "filter_return (veto_filter ?info ?req) = Inr (JS_bool False)"
    "next_calls (veto_filter ?info ?req) = []"
    by (simp_all add: veto_filter_def)
  have k: "filter_return (consuming_filter ?info ?req) = Inr JS_undefined"
    "next_calls (consuming_filter ?info ?req) = [[JS_string (lit ''route'')]]"
    by (simp_all add: consuming_filter_def)
  have n: "filter_return (null_filter ?info ?req) = Inr JS_null"
    "next_calls (null_filter ?info ?req) = []"
    by (simp_all add: null_filter_def)
  from filter_tri_state [of _ _ _ _ _ veto_filter _ count_next, OF c v(1)] v(2)
  have 1: "run_middleware simple_platform example_gateway ?parser (Some veto_filter) ?req count_next
     = \<lparr>effects = [Call_next []], returned = JS_number 0\<rparr>"
    by (simp add: count_next_def)
  from filter_tri_state [of _ _ _ _ _ consuming_filter _ count_next, OF c k(1)] k(2)
  have 2: "run_middleware simple_platform example_gateway ?parser (Some consuming_filter) ?req count_next
     = \<lparr>effects = [Call_next [JS_string (lit ''route'')]], returned = JS_number 1\<rparr>"
    by (simp add: count_next_def)
  from filter_tri_state [of _ _ _ _ _ null_filter _ count_next, OF c n(1)] n(2)
  have 3: "run_middleware simple_platform example_gateway ?parser (Some null_filter) ?req count_next
     = \<lparr>effects =
          [Emit_log (lit ''INFO''),
           Res_redirect (lit ''http://127.0.0.1.e058.3030.gateway-proxy.example.com/x'')],
        returned = JS_undefined\<rparr>"
    by (simp add: example_redirect)
  from c 1 2 3 show ?thesis by blast
qed

text \<open>
  C4. An intercepted request that is no websocket request and did not arrive on a
  gateway host is answered by \<^verbatim>\<open>res.redirect\<close>, that is with status 302, and the
  \<^verbatim>\<open>Location\<close> is the backend URL's protocol, \<^verbatim>\<open>//\<close>, the encoded target id, a dot, the
  gateway subdomain, a dot, the gateway host (the configured one, or the one derived
  from the \<^verbatim>\<open>Host\<close> header), and the backend URL's pathname and search.
\<close>

theorem redirect_wire_format:
  assumes "parse_request_core_info pf gw parser new_GatewayRequestInfo req = Inr info"
    and "filter_proceeds request_filter info req"
    and "parse_request_intercept_info pf gw parser info req = Inr info2"
    and "is_gateway_intercept info2"
    and "\<not> is_websocket_request info2"
    and "\<not> is_gateway_host info2"
  shows "\<exists>u tid gh. backend_url info2 = Url_object u \<and> target_id info2 = Some tid
     \<and> get_gateway_host gw req = Inr gh
     \<and> (let loc = protocol u @ lit ''//'' @ encode_hostname tid @ lit ''.''
                    @ gateway_subdomain gw @ lit ''.'' @ gh @ pathname u @ search u
        in run_middleware pf gw parser request_filter req next
             = \<lparr>effects = [Emit_log (lit ''INFO''), Res_redirect loc], returned = JS_undefined\<rparr>
           \<and> http_response_of (Res_redirect loc) = Some \<lparr>status = 302, location = Some loc\<rparr>)"
proof -
  from intercept_info_shape [OF assms(3,4)] obtain u tid where
    u: "backend_url info2 = Url_object u" and tid: "target_id info2 = Some tid"
    by blast
  from core_info_gateway_host [OF assms(1)] obtain gh where gh: "get_gateway_host gw req = Inr gh"
    by blast
  have "run_middleware pf gw parser request_filter req next
        = intercept_phase pf gw parser info req next"
    using assms(1,2) by (rule run_middleware_proceeds)
  also note intercept_phase_redirect [OF assms(3-6) u tid gh, of "next"]
  finally show ?thesis
    using u tid gh by (simp add: http_response_of_def)
qed

theorem redirect_wire_format_witness:
  "parse_request_core_info simple_platform example_gateway (example_parser (lit ''/x''))
       new_GatewayRequestInfo
       (example_request (lit ''/backend/x'') [lit ''host'' \<mapsto> lit ''example.com''])
     = Inr (new_GatewayRequestInfo
              \<lparr>gateway_domain_postfix := Some (lit ''gateway-proxy.example.com'')\<rparr>)
   \<and> filter_proceeds None
         (new_GatewayRequestInfo\<lparr>gateway_domain_postfix := Some (lit ''gateway-proxy.example.com'')\<rparr>)
         (example_request (lit ''/backend/x'') [lit ''host'' \<mapsto> lit ''example.com''])
   \<and> parse_request_intercept_info simple_platform example_gateway (example_parser (lit ''/x''))
         (new_GatewayRequestInfo\<lparr>gateway_domain_postfix := Some (lit ''gateway-proxy.example.com'')\<rparr>)
         (example_request (lit ''/backend/x'') [lit ''host'' \<mapsto> lit ''example.com''])
     = Inr (new_GatewayRequestInfo
              \<lparr>gateway_domain_postfix := Some (lit ''gateway-proxy.example.com''),
               is_gateway_intercept := True, target_id := Some (lit ''127.0.0.1:3030''),
               target_method := Some (lit ''GET''),
               backend_url := Url_object (example_backend (lit ''/x''))\<rparr>)
   \<and> run_middleware simple_platform example_gateway (example_parser (lit ''/x'')) None
         (example_request (lit ''/backend/x'') [lit ''host'' \<mapsto> lit ''example.com''])
         (\<lambda>args. JS_undefined)
     = \<lparr>effects =
          [Emit_log (lit ''INFO''),
           Res_redirect (lit ''http://127.0.0.1.e058.3030.gateway-proxy.example.com/x'')],
        returned = JS_undefined\<rparr>
   \<and> http_response_of
         (Res_redirect (lit ''http://127.0.0.1.e058.3030.gateway-proxy.example.com/x''))
     = Some \<lparr>status = 302,
             location = Some (lit ''http://127.0.0.1.e058.3030.gateway-proxy.example.com/x'')\<rparr>"
proof -
  let ?parser = "example_parser (lit ''/x'')"
  let ?req = "example_request (lit ''/backend/x'') [lit ''host'' \<mapsto> lit ''example.com'']"
  let ?info = "new_GatewayRequestInfo\<lparr>gateway_domain_postfix := Some (lit ''gateway-proxy.example.com'')\<rparr>"
  let ?info2 = "new_GatewayRequestInfo
              \<lparr>gateway_domain_postfix := Some (lit ''gateway-proxy.example.com''),
               is_gateway_intercept := True, target_id := Some (lit ''127.0.0.1:3030''),
               target_method := Some (lit ''GET''),
               backend_url := Url_object (example_backend (lit ''/x''))\<rparr>"
  have c: "parse_request_core_info simple_platform example_gateway ?parser new_GatewayRequestInfo ?req
           = Inr ?info"
    by (simp add: parse_request_core_info_def get_gateway_host_def req_get_def example_defs
        new_GatewayRequestInfo_def endsWith_def lit_simps)
  have f: "filter_proceeds None ?info ?req"
    by (simp add: filter_proceeds_def)
  have i: "parse_request_intercept_info simple_platform example_gateway ?parser ?info ?req = Inr ?info2"
    by (simp add: parse_request_intercept_info_def parse_url_from_route_def to_URL_def
        parse_method_def parse_protocol_def example_defs new_GatewayRequestInfo_def lit_simps)
  have h: "is_gateway_intercept ?info2" "\<not> is_websocket_request ?info2" "\<not> is_gateway_host ?info2"
    by (simp_all add: new_GatewayRequestInfo_def)
  have g: "get_gateway_host example_gateway ?req = Inr (lit ''example.com'')"
    by (simp add: get_gateway_host_def example_defs)
  have l: "protocol (example_backend (lit ''/x'')) @ lit ''//'' @ encode_hostname (lit ''127.0.0.1:3030'')
           @ lit ''.'' @ gateway_subdomain example_gateway @ lit ''.'' @ lit ''example.com''
           @ pathname (example_backend (lit ''/x'')) @ search (example_backend (lit ''/x''))
           = lit ''http://127.0.0.1.e058.3030.gateway-proxy.example.com/x''"
    unfolding encode_example by (simp add: example_defs lit_simps)
  from redirect_wire_format [OF c f i h, of "\<lambda>args. JS_undefined"] g l
  have "run_middleware simple_platform example_gateway ?parser None ?req (\<lambda>args. JS_undefined)
     = \<lparr>effects =
          [Emit_log (lit ''INFO''),
           Res_redirect (lit ''http://127.0.0.1.e058.3030.gateway-proxy.example.com/x'')],
        returned = JS_undefined\<rparr>
    \<and> http_response_of
         (Res_redirect (lit ''http://127.0.0.1.e058.3030.gateway-proxy.example.com/x''))
     = Some \<lparr>status = 302,
             location = Some (lit ''http://127.0.0.1.e058.3030.gateway-proxy.example.com/x'')\<rparr>"
    by (auto simp add: Let_def new_GatewayRequestInfo_def)
  with c f i show ?thesis by blast
qed

text \<open>
  C7. When the request's host is not a gateway host and \<^verbatim>\<open>parse_url_from_route\<close> returns
  \<^verbatim>\<open>null\<close> (or \<^verbatim>\<open>undefined\<close>), phase 2 leaves \<^verbatim>\<open>is_gateway_intercept\<close> false; a run that
  reaches phase 2 calls \<^verbatim>\<open>next()\<close> and does nothing else; whatever the filter does, no
  upstream request is opened and no redirect is sent; and unless the filter throws, a
  \<^verbatim>\<open>next\<close> is called.
\<close>

theorem pass_through_safety:
  assumes "parse_request_core_info pf gw parser new_GatewayRequestInfo req = Inr info"
    and "\<not> is_gateway_host info"
    and "parse_url_from_route pf parser gw req = Inr v"
    and "v = Url_null \<or> v = Url_undefined"
  shows "parse_request_intercept_info pf gw parser info req
           = Inr (info\<lparr>is_gateway_intercept := False, backend_url := v\<rparr>)
    \<and> (filter_proceeds request_filter info req
         \<longrightarrow> run_middleware pf gw parser request_filter req next
             = \<lparr>effects = [Call_next []], returned = next []\<rparr>)
    \<and> \<not> list_ex is_interception (effects (run_middleware pf gw parser request_filter req next))
    \<and> (\<not> filter_throws request_filter info req
         \<longrightarrow> list_ex is_next_call (effects (run_middleware pf gw parser request_filter req next)))"
proof -
  have i: "parse_request_intercept_info pf gw parser info req
           = Inr (info\<lparr>is_gateway_intercept := False, backend_url := v\<rparr>)"
    using assms(2-4) intercept_info_passed [of info pf parser gw req v] by simp
  then have p: "intercept_phase pf gw parser info req next
                = \<lparr>effects = [Call_next []], returned = next []\<rparr>"
    by (simp add: intercept_phase_def)
  have a: "filter_proceeds request_filter info req
         \<longrightarrow> run_middleware pf gw parser request_filter req next
             = \<lparr>effects = [Call_next []], returned = next []\<rparr>"
    using run_middleware_proceeds [OF assms(1)] p by simp
  have b: "\<not> list_ex is_interception (effects (run_middleware pf gw parser request_filter req next))"
    using assms(1) p
    by (auto simp add: run_middleware_def caught_def is_interception_def list_ex_iff Let_def
        split: option.splits sum.splits)
  have c: "\<not> filter_throws request_filter info req
         \<longrightarrow> list_ex is_next_call (effects (run_middleware pf gw parser request_filter req next))"
    using assms(1) p
    by (auto simp add: run_middleware_def filter_throws_def is_next_call_def list_ex_iff Let_def
        neq_Nil_conv split: option.splits sum.splits)
  from i a b c show ?thesis by blast
qed

theorem pass_through_safety_witness:
  "parse_request_core_info simple_platform default_gateway null_parser new_GatewayRequestInfo
       (example_request (lit ''/other'') [lit ''host'' \<mapsto> lit ''localhost:8080''])
     = Inr (new_GatewayRequestInfo
              \<lparr>gateway_domain_postfix := Some (lit ''gateway-proxy.localhost:8080'')\<rparr>)
   \<and> parse_url_from_route simple_platform null_parser default_gateway
         (example_request (lit ''/other'') [lit ''host'' \<mapsto> lit ''localhost:8080''])
     = Inr Url_null
   \<and> filter_proceeds None
         (new_GatewayRequestInfo\<lparr>gateway_domain_postfix := Some (lit ''gateway-proxy.localhost:8080'')\<rparr>)
         (example_request (lit ''/other'') [lit ''host'' \<mapsto> lit ''localhost:8080''])
   \<and> run_middleware simple_platform default_gateway null_parser None
         (example_request (lit ''/other'') [lit ''host'' \<mapsto> lit ''localhost:8080''])
         count_next
     = \<lparr>effects = [Call_next []], returned = JS_number 0\<rparr>"
proof -
  let ?req = "example_request (lit ''/other'') [lit ''host'' \<mapsto> lit ''localhost:8080'']"
  let ?info = "new_GatewayRequestInfo\<lparr>gateway_domain_postfix := Some (lit ''gateway-proxy.localhost:8080'')\<rparr>"
  have c: "parse_request_core_info simple_platform default_gateway null_parser
             new_GatewayRequestInfo ?req = Inr ?info"
    by (simp add: parse_request_core_info_def get_gateway_host_def req_get_def example_defs
        new_GatewayRequestInfo_def endsWith_def lastIndexOf_def lit_simps)
  have g: "\<not> is_gateway_host ?info"
    by (simp add: new_GatewayRequestInfo_def)
  have r: "parse_url_from_route simple_platform null_parser default_gateway ?req = Inr Url_null"
    by (simp add: parse_url_from_route_def null_parser_def validate_parser_def)
  have f: "filter_proceeds None ?info ?req"
    by (simp add: filter_proceeds_def)
  from pass_through_safety [OF c g r, of None count_next] f
  have "run_middleware simple_platform default_gateway null_parser None ?req count_next
        = \<lparr>effects = [Call_next []], returned = JS_number 0\<rparr>"
    by (simp add: count_next_def)
  with c r f show ?thesis by blast
qed

section \<open>Properties of the proxy engines\<close>

text \<open>
  C8. The request that either engine opens upstream carries the client's headers, with
  one change: a \<^verbatim>\<open>host\<close> header whose value ends with the host of the backend URL is
  set to \<^verbatim>\<open>null\<close>. A \<^verbatim>\<open>host\<close> header that does not end with it is forwarded as it is,
  and so is every other header.
\<close>

theorem host_header_rewrite:
  assumes "backend_url info = Url_object u"
  shows "\<exists>t options.
      create_proxy_request req info None False = Inr (t, options)
    \<and> send_proxy_request req info = Inr [Upstream_request Http_proxy t options]
    \<and> create_websocket_proxy req info = [Upstream_request Websocket_tunnel t options]
    \<and> (\<forall>name. name \<noteq> lit ''host''
           \<longrightarrow> opt_headers options name = map_option Header_string (headers req name))
    \<and> (\<forall>h. headers req (lit ''host'') = Some h \<and> endsWith h (host u)
           \<longrightarrow> opt_headers options (lit ''host'') = Some Header_null)
    \<and> (\<forall>h. headers req (lit ''host'') = Some h \<and> \<not> endsWith h (host u)
           \<longrightarrow> opt_headers options (lit ''host'') = Some (Header_string h))"
  using assms
  by (auto simp add: create_proxy_request_def send_proxy_request_def
      create_websocket_proxy_def Let_def)

theorem host_header_rewrite_witness:
  "forwarded_headers
     (create_proxy_request
        (example_request (lit ''/x'')
           [lit ''host'' \<mapsto> lit ''app.127.0.0.1:3030'', lit ''accept'' \<mapsto> lit ''text/html''])
        (new_GatewayRequestInfo\<lparr>backend_url := Url_object (example_backend (lit ''/x''))\<rparr>)
        None False) (lit ''host'')
     = Inr (Some Header_null)
   \<and> forwarded_headers
     (create_proxy_request
        (example_request (lit ''/x'')
           [lit ''host'' \<mapsto> lit ''app.127.0.0.1:3030'', lit ''accept'' \<mapsto> lit ''text/html''])
        (new_GatewayRequestInfo\<lparr>backend_url := Url_object (example_backend (lit ''/x''))\<rparr>)
        None False) (lit ''accept'')
     = Inr (Some (Header_string (lit ''text/html'')))
   \<and> forwarded_headers
     (create_proxy_request
        (example_request (lit ''/x'') [lit ''host'' \<mapsto> lit ''example.com''])
        (new_GatewayRequestInfo\<lparr>backend_url := Url_object (example_backend (lit ''/x''))\<rparr>)
        None False) (lit ''host'')
     = Inr (Some (Header_string (lit ''example.com'')))"
proof -
  let ?info = "new_GatewayRequestInfo\<lparr>backend_url := Url_object (example_backend (lit ''/x''))\<rparr>"
  let ?r1 = "example_request (lit ''/x'')
           [lit ''host'' \<mapsto> lit ''app.127.0.0.1:3030'', lit ''accept'' \<mapsto> lit ''text/html'']"
  let ?r2 = "example_request (lit ''/x'') [lit ''host'' \<mapsto> lit ''example.com'']"
  have b: "backend_url ?info = Url_object (example_backend (lit ''/x''))"
    by simp
  have h1: "headers ?r1 (lit ''host'') = Some (lit ''app.127.0.0.1:3030'')"
    "headers ?r1 (lit ''accept'') = Some (lit ''text/html'')"
    "lit ''accept'' \<noteq> lit ''host''"
    "endsWith (lit ''app.127.0.0.1:3030'') (host (example_backend (lit ''/x'')))"
    by (simp_all add: example_request_def example_backend_def endsWith_def lit_simps)
  have h2: "headers ?r2 (lit ''host'') = Some (lit ''example.com'')"
    "\<not> endsWith (lit ''example.com'') (host (example_backend (lit ''/x'')))"
    by (simp_all add: example_request_def example_backend_def endsWith_def lit_simps)
  from host_header_rewrite [OF b, of ?r1] h1
  have 1: "forwarded_headers (create_proxy_request ?r1 ?info None False) (lit ''host'')
             = Inr (Some Header_null)"
    and 2: "forwarded_headers (create_proxy_request ?r1 ?info None False) (lit ''accept'')
             = Inr (Some (Header_string (lit ''text/html'')))"
    by (auto simp add: forwarded_headers_def)
  from host_header_rewrite [OF b, of ?r2] h2
  have 3: "forwarded_headers (create_proxy_request ?r2 ?info None False) (lit ''host'')
             = Inr (Some (Header_string (lit ''example.com'')))"
    by (auto simp add: forwarded_headers_def)
  from 1 2 3 show ?thesis by blast
qed

text \<open>
  C5 at an upstream response whose headers hold an array, as \<^verbatim>\<open>set-cookie\<close> always is:
  the serialization throws a \<^verbatim>\<open>ReferenceError\<close> and nothing is written to the client,
  where the claim expects the status line and the line \<^verbatim>\<open>set-cookie: a=1\<close>.
\<close>

theorem upgrade_response_array_header:
  "upgrade_response [(lit ''set-cookie'', Array [lit ''a=1''])] = Inl ReferenceError"
  by (simp add: upgrade_response_def create_websocket_socket_header_def)

lemma object_lines_scalars:
  "object_lines (map (\<lambda>(key, ov). (key, Scalar ov)) kvs)
   = Inr (map (\<lambda>(key, ov). key @ lit '': '' @ ov) kvs)"
  by (induction kvs) auto

text \<open>
  With scalar headers only, the upgrade response is the status line and one
  \<^verbatim>\<open>Key: value\<close> line per header, separated by CRLF and closed by a blank line.
\<close>

theorem upgrade_response_scalars:
  "upgrade_response (map (\<lambda>(key, ov). (key, Scalar ov)) kvs)
   = Inr (join (lit ''HTTP/1.1 101 Switching Protocols''
                # map (\<lambda>(key, ov). key @ lit '': '' @ ov) kvs) CRLF
          @ CRLF @ CRLF)"
  by (simp add: upgrade_response_def create_websocket_socket_header_def object_lines_scalars)

lemma upgrade_response_example:
  "upgrade_response
     [(lit ''upgrade'', Scalar (lit ''websocket'')), (lit ''connection'', Scalar (lit ''Upgrade''))]
   = Inr (lit ''HTTP/1.1 101 Switching Protocols'' @ CRLF
          @ lit ''upgrade: websocket'' @ CRLF
          @ lit ''connection: Upgrade'' @ CRLF @ CRLF)"
  by (simp add: upgrade_response_def create_websocket_socket_header_def join_def lit_simps)

lemma object_lines_array:
  "object_lines (before @ (key, Array (x # xs)) # after) = Inl ReferenceError"
proof (induction before)
  case Nil
  show ?case by simp
next
  case (Cons kv before)
  obtain k ov where kv: "kv = (k, ov)" by (cases kv)
  show ?case
  proof (cases ov)
    case (Scalar v)
    with kv Cons show ?thesis by simp
  next
    case (Array vs)
    with kv Cons show ?thesis by simp
  qed
qed

text \<open>
  Any header of the upstream response that is a non-empty array makes the upgrade
  response throw.
\<close>

theorem upgrade_response_any_array:
  "upgrade_response (before @ (key, Array (x # xs)) # after) = Inl ReferenceError"
  by (simp add: upgrade_response_def create_websocket_socket_header_def object_lines_array)


end
